theory Spec2Isabelle
  imports Main "HOL-Library.AList" "HOL-Library.Code_Target_Numeral"
begin

section \<open>Text: Python's \<open>str\<close> as a list of code points\<close>

text \<open>
  The bank node decodes every line it reads as UTF-8 and hands the resulting \<open>str\<close> to
  \<open>process_command\<close>. A \<open>str\<close> is the list of its Unicode code points. The tables below
  (white space, decimal digits, upper case) are those of Unicode 14.0, which CPython 3.11
  carries. \<open>ascii\<close> embeds an ASCII text, written as an Isabelle string, into such lists;
  \<open>str(n)\<close> of an integer is ASCII and is kept as an Isabelle string.
\<close>

type_synonym unicode = "nat list"

definition ascii :: "string \<Rightarrow> unicode" where
  "ascii s = map of_char s"

definition is_space :: "nat \<Rightarrow> bool" where
  \<comment> \<open>\<open>str.isspace\<close> of one character: what \<open>str.split()\<close> splits on\<close>
  "is_space c =
     ((9 \<le> c \<and> c \<le> 13) \<or> (28 \<le> c \<and> c \<le> 32) \<or> c = 0x85 \<or> c = 0xA0 \<or> c = 0x1680 \<or>
      (0x2000 \<le> c \<and> c \<le> 0x200A) \<or> c = 0x2028 \<or> c = 0x2029 \<or> c = 0x202F \<or>
      c = 0x205F \<or> c = 0x3000)"

definition is_int_space :: "nat \<Rightarrow> bool" where
  \<comment> \<open>the white space \<open>int()\<close> skips around a number: C's \<open>isspace\<close> on ASCII,
      every white space outside ASCII\<close>
  "is_int_space c = ((9 \<le> c \<and> c \<le> 13) \<or> c = 32 \<or> (128 \<le> c \<and> is_space c))"

text \<open>
  The decimal digits outside ASCII: each entry is the code point of a digit zero, and the
  digits one to nine of the same script follow it.
\<close>

definition decimal_zeros :: "nat list" where
  "decimal_zeros =
    [0x660, 0x6F0, 0x7C0, 0x966, 0x9E6, 0xA66, 0xAE6, 0xB66, 0xBE6, 0xC66, 0xCE6, 0xD66,
     0xDE6, 0xE50, 0xED0, 0xF20, 0x1040, 0x1090, 0x17E0, 0x1810, 0x1946, 0x19D0, 0x1A80,
     0x1A90, 0x1B50, 0x1BB0, 0x1C40, 0x1C50, 0xA620, 0xA8D0, 0xA900, 0xA9D0, 0xA9F0,
     0xAA50, 0xABF0, 0xFF10, 0x104A0, 0x10D30, 0x11066, 0x110F0, 0x11136, 0x111D0, 0x112F0,
     0x11450, 0x114D0, 0x11650, 0x116C0, 0x11730, 0x118E0, 0x11950, 0x11C50, 0x11D50,
     0x11DA0, 0x16A60, 0x16AC0, 0x16B50, 0x1D7CE, 0x1D7D8, 0x1D7E2, 0x1D7EC, 0x1D7F6,
     0x1E140, 0x1E2F0, 0x1E950, 0x1FBF0]"

definition digit_of :: "nat \<Rightarrow> nat option" where
  \<comment> \<open>the value of a decimal digit: what \<open>int()\<close> reads and \<open>\d\<close> matches\<close>
  "digit_of c =
     (if 48 \<le> c \<and> c \<le> 57 then Some (c - 48)
      else case find (\<lambda>z. z \<le> c \<and> c < z + 10) decimal_zeros of
             Some z \<Rightarrow> Some (c - z)
           | None \<Rightarrow> None)"

definition is_digit :: "nat \<Rightarrow> bool" where
  "is_digit c = (digit_of c \<noteq> None)"

definition digit_char :: "nat \<Rightarrow> char" where
  "digit_char d = ''0123456789'' ! d"

subsection \<open>\<open>str(n)\<close> for an integer\<close>

function str_nat :: "nat \<Rightarrow> string" where
  "str_nat n = (if n < 10 then [digit_char n] else str_nat (n div 10) @ [digit_char (n mod 10)])"
  by pat_completeness auto
termination
  by (relation "measure id") auto

declare str_nat.simps [simp del]

definition str :: "int \<Rightarrow> string" where
  "str i = (if i < 0 then CHR ''-'' # str_nat (nat (- i)) else str_nat (nat i))"

text \<open>
  CPython 3.11 refuses to convert between \<open>int\<close> and \<open>str\<close> when more than
  \<open>sys.get_int_max_str_digits()\<close> digits are involved and raises \<open>ValueError\<close>. The limit is
  4300 unless the interpreter is configured otherwise, and 0 switches it off, as in the
  versions before it existed; it is the parameter \<open>max_digits\<close> of what follows. Numbers
  of up to 640 digits are never refused.
\<close>

definition over_limit :: "nat \<Rightarrow> nat \<Rightarrow> bool" where
  "over_limit max_digits n = (640 < n \<and> 0 < max_digits \<and> max_digits < n)"

subsection \<open>\<open>int(s)\<close> for a string\<close>

text \<open>
  \<open>int(s)\<close> in base 10: white space around the number is skipped, one sign is allowed,
  then come digits, where single underscores may stand between two digits. Anything
  else raises \<open>ValueError\<close>, as does a number with more digits than the limit; that is
  \<^const>\<open>None\<close> here. The first argument of \<open>py_digits\<close> says whether the character before was
  a digit.
\<close>

fun py_digits :: "bool \<Rightarrow> nat \<Rightarrow> unicode \<Rightarrow> nat option" where
  "py_digits prev acc [] = (if prev then Some acc else None)"
| "py_digits prev acc (c # cs) =
     (case digit_of c of
        Some d \<Rightarrow> py_digits True (10 * acc + d) cs
      | None \<Rightarrow> if c = 0x5F \<and> prev then py_digits False acc cs else None)"

definition py_number :: "nat \<Rightarrow> unicode \<Rightarrow> nat option" where
  "py_number max_digits s =
     (if over_limit max_digits (length (filter is_digit s)) then None else py_digits False 0 s)"

definition int_strip :: "unicode \<Rightarrow> unicode" where
  "int_strip s = rev (dropWhile is_int_space (rev (dropWhile is_int_space s)))"

definition py_int :: "nat \<Rightarrow> unicode \<Rightarrow> int option" where
  "py_int max_digits s =
     (case int_strip s of
        [] \<Rightarrow> None
      | c # cs \<Rightarrow>
          if c = 0x2D then map_option (\<lambda>n. - int n) (py_number max_digits cs)
          else if c = 0x2B then map_option int (py_number max_digits cs)
          else map_option int (py_number max_digits (c # cs)))"

text \<open>The value of a run of digits read from the left, used to relate \<open>str\<close> and \<open>int\<close>.\<close>

definition digits_value :: "nat \<Rightarrow> unicode \<Rightarrow> nat" where
  "digits_value acc ds = foldl (\<lambda>a c. 10 * a + the (digit_of c)) acc ds"

subsection \<open>\<open>split\<close> and \<open>upper\<close>\<close>

text \<open>
  \<open>s.split()\<close>: the maximal runs of characters that are not white space.
  The first argument is the token being read, reversed.
\<close>

fun split_ws_from :: "unicode \<Rightarrow> unicode \<Rightarrow> unicode list" where
  "split_ws_from cur [] = (if cur = [] then [] else [rev cur])"
| "split_ws_from cur (c # cs) =
     (if is_space c then (if cur = [] then split_ws_from [] cs else rev cur # split_ws_from [] cs)
      else split_ws_from (c # cur) cs)"

definition split_ws :: "unicode \<Rightarrow> unicode list" where
  "split_ws s = split_ws_from [] s"

text \<open>\<open>s.split(sep)\<close>: cuts at every separator and keeps empty parts.\<close>

fun split_on :: "nat \<Rightarrow> unicode \<Rightarrow> unicode list" where
  "split_on sep [] = [[]]"
| "split_on sep (c # cs) =
     (let r = split_on sep cs in if c = sep then [] # r else (c # hd r) # tl r)"

text \<open>
  \<open>s.upper()\<close> replaces every character by its upper case, which may be several
  characters. The table lists the characters outside ASCII that have one, in parts of
  300 entries.
\<close>

definition upper_table_1 :: "(nat \<times> unicode) list" where
  "upper_table_1 =
    [(0xB5, [0x39C]), (0xDF, [0x53, 0x53]), (0xE0, [0xC0]), (0xE1, [0xC1]), (0xE2, [0xC2]),
     (0xE3, [0xC3]), (0xE4, [0xC4]), (0xE5, [0xC5]), (0xE6, [0xC6]), (0xE7, [0xC7]),
     (0xE8, [0xC8]), (0xE9, [0xC9]), (0xEA, [0xCA]), (0xEB, [0xCB]), (0xEC, [0xCC]),
     (0xED, [0xCD]), (0xEE, [0xCE]), (0xEF, [0xCF]), (0xF0, [0xD0]), (0xF1, [0xD1]),
     (0xF2, [0xD2]), (0xF3, [0xD3]), (0xF4, [0xD4]), (0xF5, [0xD5]), (0xF6, [0xD6]),
     (0xF8, [0xD8]), (0xF9, [0xD9]), (0xFA, [0xDA]), (0xFB, [0xDB]), (0xFC, [0xDC]),
     (0xFD, [0xDD]), (0xFE, [0xDE]), (0xFF, [0x178]), (0x101, [0x100]), (0x103, [0x102]),
     (0x105, [0x104]), (0x107, [0x106]), (0x109, [0x108]), (0x10B, [0x10A]),
     (0x10D, [0x10C]), (0x10F, [0x10E]), (0x111, [0x110]), (0x113, [0x112]),
     (0x115, [0x114]), (0x117, [0x116]), (0x119, [0x118]), (0x11B, [0x11A]),
     (0x11D, [0x11C]), (0x11F, [0x11E]), (0x121, [0x120]), (0x123, [0x122]),
     (0x125, [0x124]), (0x127, [0x126]), (0x129, [0x128]), (0x12B, [0x12A]),
     (0x12D, [0x12C]), (0x12F, [0x12E]), (0x131, [0x49]), (0x133, [0x132]),
     (0x135, [0x134]), (0x137, [0x136]), (0x13A, [0x139]), (0x13C, [0x13B]),
     (0x13E, [0x13D]), (0x140, [0x13F]), (0x142, [0x141]), (0x144, [0x143]),
     (0x146, [0x145]), (0x148, [0x147]), (0x149, [0x2BC, 0x4E]), (0x14B, [0x14A]),
     (0x14D, [0x14C]), (0x14F, [0x14E]), (0x151, [0x150]), (0x153, [0x152]),
     (0x155, [0x154]), (0x157, [0x156]), (0x159, [0x158]), (0x15B, [0x15A]),
     (0x15D, [0x15C]), (0x15F, [0x15E]), (0x161, [0x160]), (0x163, [0x162]),
     (0x165, [0x164]), (0x167, [0x166]), (0x169, [0x168]), (0x16B, [0x16A]),
     (0x16D, [0x16C]), (0x16F, [0x16E]), (0x171, [0x170]), (0x173, [0x172]),
     (0x175, [0x174]), (0x177, [0x176]), (0x17A, [0x179]), (0x17C, [0x17B]),
     (0x17E, [0x17D]), (0x17F, [0x53]), (0x180, [0x243]), (0x183, [0x182]),
     (0x185, [0x184]), (0x188, [0x187]), (0x18C, [0x18B]), (0x192, [0x191]),
     (0x195, [0x1F6]), (0x199, [0x198]), (0x19A, [0x23D]), (0x19E, [0x220]),
     (0x1A1, [0x1A0]), (0x1A3, [0x1A2]), (0x1A5, [0x1A4]), (0x1A8, [0x1A7]),
     (0x1AD, [0x1AC]), (0x1B0, [0x1AF]), (0x1B4, [0x1B3]), (0x1B6, [0x1B5]),
     (0x1B9, [0x1B8]), (0x1BD, [0x1BC]), (0x1BF, [0x1F7]), (0x1C5, [0x1C4]),
     (0x1C6, [0x1C4]), (0x1C8, [0x1C7]), (0x1C9, [0x1C7]), (0x1CB, [0x1CA]),
     (0x1CC, [0x1CA]), (0x1CE, [0x1CD]), (0x1D0, [0x1CF]), (0x1D2, [0x1D1]),
     (0x1D4, [0x1D3]), (0x1D6, [0x1D5]), (0x1D8, [0x1D7]), (0x1DA, [0x1D9]),
     (0x1DC, [0x1DB]), (0x1DD, [0x18E]), (0x1DF, [0x1DE]), (0x1E1, [0x1E0]),
     (0x1E3, [0x1E2]), (0x1E5, [0x1E4]), (0x1E7, [0x1E6]), (0x1E9, [0x1E8]),
     (0x1EB, [0x1EA]), (0x1ED, [0x1EC]), (0x1EF, [0x1EE]), (0x1F0, [0x4A, 0x30C]),
     (0x1F2, [0x1F1]), (0x1F3, [0x1F1]), (0x1F5, [0x1F4]), (0x1F9, [0x1F8]),
     (0x1FB, [0x1FA]), (0x1FD, [0x1FC]), (0x1FF, [0x1FE]), (0x201, [0x200]),
     (0x203, [0x202]), (0x205, [0x204]), (0x207, [0x206]), (0x209, [0x208]),
     (0x20B, [0x20A]), (0x20D, [0x20C]), (0x20F, [0x20E]), (0x211, [0x210]),
     (0x213, [0x212]), (0x215, [0x214]), (0x217, [0x216]), (0x219, [0x218]),
     (0x21B, [0x21A]), (0x21D, [0x21C]), (0x21F, [0x21E]), (0x223, [0x222]),
     (0x225, [0x224]), (0x227, [0x226]), (0x229, [0x228]), (0x22B, [0x22A]),
     (0x22D, [0x22C]), (0x22F, [0x22E]), (0x231, [0x230]), (0x233, [0x232]),
     (0x23C, [0x23B]), (0x23F, [0x2C7E]), (0x240, [0x2C7F]), (0x242, [0x241]),
     (0x247, [0x246]), (0x249, [0x248]), (0x24B, [0x24A]), (0x24D, [0x24C]),
     (0x24F, [0x24E]), (0x250, [0x2C6F]), (0x251, [0x2C6D]), (0x252, [0x2C70]),
     (0x253, [0x181]), (0x254, [0x186]), (0x256, [0x189]), (0x257, [0x18A]),
     (0x259, [0x18F]), (0x25B, [0x190]), (0x25C, [0xA7AB]), (0x260, [0x193]),
     (0x261, [0xA7AC]), (0x263, [0x194]), (0x265, [0xA78D]), (0x266, [0xA7AA]),
     (0x268, [0x197]), (0x269, [0x196]), (0x26A, [0xA7AE]), (0x26B, [0x2C62]),
     (0x26C, [0xA7AD]), (0x26F, [0x19C]), (0x271, [0x2C6E]), (0x272, [0x19D]),
     (0x275, [0x19F]), (0x27D, [0x2C64]), (0x280, [0x1A6]), (0x282, [0xA7C5]),
     (0x283, [0x1A9]), (0x287, [0xA7B1]), (0x288, [0x1AE]), (0x289, [0x244]),
     (0x28A, [0x1B1]), (0x28B, [0x1B2]), (0x28C, [0x245]), (0x292, [0x1B7]),
     (0x29D, [0xA7B2]), (0x29E, [0xA7B0]), (0x345, [0x399]), (0x371, [0x370]),
     (0x373, [0x372]), (0x377, [0x376]), (0x37B, [0x3FD]), (0x37C, [0x3FE]),
     (0x37D, [0x3FF]), (0x390, [0x399, 0x308, 0x301]), (0x3AC, [0x386]), (0x3AD, [0x388]),
     (0x3AE, [0x389]), (0x3AF, [0x38A]), (0x3B0, [0x3A5, 0x308, 0x301]), (0x3B1, [0x391]),
     (0x3B2, [0x392]), (0x3B3, [0x393]), (0x3B4, [0x394]), (0x3B5, [0x395]),
     (0x3B6, [0x396]), (0x3B7, [0x397]), (0x3B8, [0x398]), (0x3B9, [0x399]),
     (0x3BA, [0x39A]), (0x3BB, [0x39B]), (0x3BC, [0x39C]), (0x3BD, [0x39D]),
     (0x3BE, [0x39E]), (0x3BF, [0x39F]), (0x3C0, [0x3A0]), (0x3C1, [0x3A1]),
     (0x3C2, [0x3A3]), (0x3C3, [0x3A3]), (0x3C4, [0x3A4]), (0x3C5, [0x3A5]),
     (0x3C6, [0x3A6]), (0x3C7, [0x3A7]), (0x3C8, [0x3A8]), (0x3C9, [0x3A9]),
     (0x3CA, [0x3AA]), (0x3CB, [0x3AB]), (0x3CC, [0x38C]), (0x3CD, [0x38E]),
     (0x3CE, [0x38F]), (0x3D0, [0x392]), (0x3D1, [0x398]), (0x3D5, [0x3A6]),
     (0x3D6, [0x3A0]), (0x3D7, [0x3CF]), (0x3D9, [0x3D8]), (0x3DB, [0x3DA]),
     (0x3DD, [0x3DC]), (0x3DF, [0x3DE]), (0x3E1, [0x3E0]), (0x3E3, [0x3E2]),
     (0x3E5, [0x3E4]), (0x3E7, [0x3E6]), (0x3E9, [0x3E8]), (0x3EB, [0x3EA]),
     (0x3ED, [0x3EC]), (0x3EF, [0x3EE]), (0x3F0, [0x39A]), (0x3F1, [0x3A1]),
     (0x3F2, [0x3F9]), (0x3F3, [0x37F]), (0x3F5, [0x395]), (0x3F8, [0x3F7]),
     (0x3FB, [0x3FA]), (0x430, [0x410]), (0x431, [0x411]), (0x432, [0x412]),
     (0x433, [0x413]), (0x434, [0x414]), (0x435, [0x415]), (0x436, [0x416]),
     (0x437, [0x417]), (0x438, [0x418]), (0x439, [0x419]), (0x43A, [0x41A]),
     (0x43B, [0x41B])]"

definition upper_table_2 :: "(nat \<times> unicode) list" where
  "upper_table_2 =
    [(0x43C, [0x41C]), (0x43D, [0x41D]), (0x43E, [0x41E]), (0x43F, [0x41F]),
     (0x440, [0x420]), (0x441, [0x421]), (0x442, [0x422]), (0x443, [0x423]),
     (0x444, [0x424]), (0x445, [0x425]), (0x446, [0x426]), (0x447, [0x427]),
     (0x448, [0x428]), (0x449, [0x429]), (0x44A, [0x42A]), (0x44B, [0x42B]),
     (0x44C, [0x42C]), (0x44D, [0x42D]), (0x44E, [0x42E]), (0x44F, [0x42F]),
     (0x450, [0x400]), (0x451, [0x401]), (0x452, [0x402]), (0x453, [0x403]),
     (0x454, [0x404]), (0x455, [0x405]), (0x456, [0x406]), (0x457, [0x407]),
     (0x458, [0x408]), (0x459, [0x409]), (0x45A, [0x40A]), (0x45B, [0x40B]),
     (0x45C, [0x40C]), (0x45D, [0x40D]), (0x45E, [0x40E]), (0x45F, [0x40F]),
     (0x461, [0x460]), (0x463, [0x462]), (0x465, [0x464]), (0x467, [0x466]),
     (0x469, [0x468]), (0x46B, [0x46A]), (0x46D, [0x46C]), (0x46F, [0x46E]),
     (0x471, [0x470]), (0x473, [0x472]), (0x475, [0x474]), (0x477, [0x476]),
     (0x479, [0x478]), (0x47B, [0x47A]), (0x47D, [0x47C]), (0x47F, [0x47E]),
     (0x481, [0x480]), (0x48B, [0x48A]), (0x48D, [0x48C]), (0x48F, [0x48E]),
     (0x491, [0x490]), (0x493, [0x492]), (0x495, [0x494]), (0x497, [0x496]),
     (0x499, [0x498]), (0x49B, [0x49A]), (0x49D, [0x49C]), (0x49F, [0x49E]),
     (0x4A1, [0x4A0]), (0x4A3, [0x4A2]), (0x4A5, [0x4A4]), (0x4A7, [0x4A6]),
     (0x4A9, [0x4A8]), (0x4AB, [0x4AA]), (0x4AD, [0x4AC]), (0x4AF, [0x4AE]),
     (0x4B1, [0x4B0]), (0x4B3, [0x4B2]), (0x4B5, [0x4B4]), (0x4B7, [0x4B6]),
     (0x4B9, [0x4B8]), (0x4BB, [0x4BA]), (0x4BD, [0x4BC]), (0x4BF, [0x4BE]),
     (0x4C2, [0x4C1]), (0x4C4, [0x4C3]), (0x4C6, [0x4C5]), (0x4C8, [0x4C7]),
     (0x4CA, [0x4C9]), (0x4CC, [0x4CB]), (0x4CE, [0x4CD]), (0x4CF, [0x4C0]),
     (0x4D1, [0x4D0]), (0x4D3, [0x4D2]), (0x4D5, [0x4D4]), (0x4D7, [0x4D6]),
     (0x4D9, [0x4D8]), (0x4DB, [0x4DA]), (0x4DD, [0x4DC]), (0x4DF, [0x4DE]),
     (0x4E1, [0x4E0]), (0x4E3, [0x4E2]), (0x4E5, [0x4E4]), (0x4E7, [0x4E6]),
     (0x4E9, [0x4E8]), (0x4EB, [0x4EA]), (0x4ED, [0x4EC]), (0x4EF, [0x4EE]),
     (0x4F1, [0x4F0]), (0x4F3, [0x4F2]), (0x4F5, [0x4F4]), (0x4F7, [0x4F6]),
     (0x4F9, [0x4F8]), (0x4FB, [0x4FA]), (0x4FD, [0x4FC]), (0x4FF, [0x4FE]),
     (0x501, [0x500]), (0x503, [0x502]), (0x505, [0x504]), (0x507, [0x506]),
     (0x509, [0x508]), (0x50B, [0x50A]), (0x50D, [0x50C]), (0x50F, [0x50E]),
     (0x511, [0x510]), (0x513, [0x512]), (0x515, [0x514]), (0x517, [0x516]),
     (0x519, [0x518]), (0x51B, [0x51A]), (0x51D, [0x51C]), (0x51F, [0x51E]),
     (0x521, [0x520]), (0x523, [0x522]), (0x525, [0x524]), (0x527, [0x526]),
     (0x529, [0x528]), (0x52B, [0x52A]), (0x52D, [0x52C]), (0x52F, [0x52E]),
     (0x561, [0x531]), (0x562, [0x532]), (0x563, [0x533]), (0x564, [0x534]),
     (0x565, [0x535]), (0x566, [0x536]), (0x567, [0x537]), (0x568, [0x538]),
     (0x569, [0x539]), (0x56A, [0x53A]), (0x56B, [0x53B]), (0x56C, [0x53C]),
     (0x56D, [0x53D]), (0x56E, [0x53E]), (0x56F, [0x53F]), (0x570, [0x540]),
     (0x571, [0x541]), (0x572, [0x542]), (0x573, [0x543]), (0x574, [0x544]),
     (0x575, [0x545]), (0x576, [0x546]), (0x577, [0x547]), (0x578, [0x548]),
     (0x579, [0x549]), (0x57A, [0x54A]), (0x57B, [0x54B]), (0x57C, [0x54C]),
     (0x57D, [0x54D]), (0x57E, [0x54E]), (0x57F, [0x54F]), (0x580, [0x550]),
     (0x581, [0x551]), (0x582, [0x552]), (0x583, [0x553]), (0x584, [0x554]),
     (0x585, [0x555]), (0x586, [0x556]), (0x587, [0x535, 0x552]), (0x10D0, [0x1C90]),
     (0x10D1, [0x1C91]), (0x10D2, [0x1C92]), (0x10D3, [0x1C93]), (0x10D4, [0x1C94]),
     (0x10D5, [0x1C95]), (0x10D6, [0x1C96]), (0x10D7, [0x1C97]), (0x10D8, [0x1C98]),
     (0x10D9, [0x1C99]), (0x10DA, [0x1C9A]), (0x10DB, [0x1C9B]), (0x10DC, [0x1C9C]),
     (0x10DD, [0x1C9D]), (0x10DE, [0x1C9E]), (0x10DF, [0x1C9F]), (0x10E0, [0x1CA0]),
     (0x10E1, [0x1CA1]), (0x10E2, [0x1CA2]), (0x10E3, [0x1CA3]), (0x10E4, [0x1CA4]),
     (0x10E5, [0x1CA5]), (0x10E6, [0x1CA6]), (0x10E7, [0x1CA7]), (0x10E8, [0x1CA8]),
     (0x10E9, [0x1CA9]), (0x10EA, [0x1CAA]), (0x10EB, [0x1CAB]), (0x10EC, [0x1CAC]),
     (0x10ED, [0x1CAD]), (0x10EE, [0x1CAE]), (0x10EF, [0x1CAF]), (0x10F0, [0x1CB0]),
     (0x10F1, [0x1CB1]), (0x10F2, [0x1CB2]), (0x10F3, [0x1CB3]), (0x10F4, [0x1CB4]),
     (0x10F5, [0x1CB5]), (0x10F6, [0x1CB6]), (0x10F7, [0x1CB7]), (0x10F8, [0x1CB8]),
     (0x10F9, [0x1CB9]), (0x10FA, [0x1CBA]), (0x10FD, [0x1CBD]), (0x10FE, [0x1CBE]),
     (0x10FF, [0x1CBF]), (0x13F8, [0x13F0]), (0x13F9, [0x13F1]), (0x13FA, [0x13F2]),
     (0x13FB, [0x13F3]), (0x13FC, [0x13F4]), (0x13FD, [0x13F5]), (0x1C80, [0x412]),
     (0x1C81, [0x414]), (0x1C82, [0x41E]), (0x1C83, [0x421]), (0x1C84, [0x422]),
     (0x1C85, [0x422]), (0x1C86, [0x42A]), (0x1C87, [0x462]), (0x1C88, [0xA64A]),
     (0x1D79, [0xA77D]), (0x1D7D, [0x2C63]), (0x1D8E, [0xA7C6]), (0x1E01, [0x1E00]),
     (0x1E03, [0x1E02]), (0x1E05, [0x1E04]), (0x1E07, [0x1E06]), (0x1E09, [0x1E08]),
     (0x1E0B, [0x1E0A]), (0x1E0D, [0x1E0C]), (0x1E0F, [0x1E0E]), (0x1E11, [0x1E10]),
     (0x1E13, [0x1E12]), (0x1E15, [0x1E14]), (0x1E17, [0x1E16]), (0x1E19, [0x1E18]),
     (0x1E1B, [0x1E1A]), (0x1E1D, [0x1E1C]), (0x1E1F, [0x1E1E]), (0x1E21, [0x1E20]),
     (0x1E23, [0x1E22]), (0x1E25, [0x1E24]), (0x1E27, [0x1E26]), (0x1E29, [0x1E28]),
     (0x1E2B, [0x1E2A]), (0x1E2D, [0x1E2C]), (0x1E2F, [0x1E2E]), (0x1E31, [0x1E30]),
     (0x1E33, [0x1E32]), (0x1E35, [0x1E34]), (0x1E37, [0x1E36]), (0x1E39, [0x1E38]),
     (0x1E3B, [0x1E3A]), (0x1E3D, [0x1E3C]), (0x1E3F, [0x1E3E]), (0x1E41, [0x1E40]),
     (0x1E43, [0x1E42]), (0x1E45, [0x1E44]), (0x1E47, [0x1E46]), (0x1E49, [0x1E48]),
     (0x1E4B, [0x1E4A]), (0x1E4D, [0x1E4C]), (0x1E4F, [0x1E4E]), (0x1E51, [0x1E50]),
     (0x1E53, [0x1E52]), (0x1E55, [0x1E54]), (0x1E57, [0x1E56]), (0x1E59, [0x1E58]),
     (0x1E5B, [0x1E5A]), (0x1E5D, [0x1E5C]), (0x1E5F, [0x1E5E]), (0x1E61, [0x1E60]),
     (0x1E63, [0x1E62]), (0x1E65, [0x1E64]), (0x1E67, [0x1E66]), (0x1E69, [0x1E68]),
     (0x1E6B, [0x1E6A]), (0x1E6D, [0x1E6C]), (0x1E6F, [0x1E6E]), (0x1E71, [0x1E70]),
     (0x1E73, [0x1E72]), (0x1E75, [0x1E74]), (0x1E77, [0x1E76]), (0x1E79, [0x1E78])]"

definition upper_table_3 :: "(nat \<times> unicode) list" where
  "upper_table_3 =
    [(0x1E7B, [0x1E7A]), (0x1E7D, [0x1E7C]), (0x1E7F, [0x1E7E]), (0x1E81, [0x1E80]),
     (0x1E83, [0x1E82]), (0x1E85, [0x1E84]), (0x1E87, [0x1E86]), (0x1E89, [0x1E88]),
     (0x1E8B, [0x1E8A]), (0x1E8D, [0x1E8C]), (0x1E8F, [0x1E8E]), (0x1E91, [0x1E90]),
     (0x1E93, [0x1E92]), (0x1E95, [0x1E94]), (0x1E96, [0x48, 0x331]),
     (0x1E97, [0x54, 0x308]), (0x1E98, [0x57, 0x30A]), (0x1E99, [0x59, 0x30A]),
     (0x1E9A, [0x41, 0x2BE]), (0x1E9B, [0x1E60]), (0x1EA1, [0x1EA0]), (0x1EA3, [0x1EA2]),
     (0x1EA5, [0x1EA4]), (0x1EA7, [0x1EA6]), (0x1EA9, [0x1EA8]), (0x1EAB, [0x1EAA]),
     (0x1EAD, [0x1EAC]), (0x1EAF, [0x1EAE]), (0x1EB1, [0x1EB0]), (0x1EB3, [0x1EB2]),
     (0x1EB5, [0x1EB4]), (0x1EB7, [0x1EB6]), (0x1EB9, [0x1EB8]), (0x1EBB, [0x1EBA]),
     (0x1EBD, [0x1EBC]), (0x1EBF, [0x1EBE]), (0x1EC1, [0x1EC0]), (0x1EC3, [0x1EC2]),
     (0x1EC5, [0x1EC4]), (0x1EC7, [0x1EC6]), (0x1EC9, [0x1EC8]), (0x1ECB, [0x1ECA]),
     (0x1ECD, [0x1ECC]), (0x1ECF, [0x1ECE]), (0x1ED1, [0x1ED0]), (0x1ED3, [0x1ED2]),
     (0x1ED5, [0x1ED4]), (0x1ED7, [0x1ED6]), (0x1ED9, [0x1ED8]), (0x1EDB, [0x1EDA]),
     (0x1EDD, [0x1EDC]), (0x1EDF, [0x1EDE]), (0x1EE1, [0x1EE0]), (0x1EE3, [0x1EE2]),
     (0x1EE5, [0x1EE4]), (0x1EE7, [0x1EE6]), (0x1EE9, [0x1EE8]), (0x1EEB, [0x1EEA]),
     (0x1EED, [0x1EEC]), (0x1EEF, [0x1EEE]), (0x1EF1, [0x1EF0]), (0x1EF3, [0x1EF2]),
     (0x1EF5, [0x1EF4]), (0x1EF7, [0x1EF6]), (0x1EF9, [0x1EF8]), (0x1EFB, [0x1EFA]),
     (0x1EFD, [0x1EFC]), (0x1EFF, [0x1EFE]), (0x1F00, [0x1F08]), (0x1F01, [0x1F09]),
     (0x1F02, [0x1F0A]), (0x1F03, [0x1F0B]), (0x1F04, [0x1F0C]), (0x1F05, [0x1F0D]),
     (0x1F06, [0x1F0E]), (0x1F07, [0x1F0F]), (0x1F10, [0x1F18]), (0x1F11, [0x1F19]),
     (0x1F12, [0x1F1A]), (0x1F13, [0x1F1B]), (0x1F14, [0x1F1C]), (0x1F15, [0x1F1D]),
     (0x1F20, [0x1F28]), (0x1F21, [0x1F29]), (0x1F22, [0x1F2A]), (0x1F23, [0x1F2B]),
     (0x1F24, [0x1F2C]), (0x1F25, [0x1F2D]), (0x1F26, [0x1F2E]), (0x1F27, [0x1F2F]),
     (0x1F30, [0x1F38]), (0x1F31, [0x1F39]), (0x1F32, [0x1F3A]), (0x1F33, [0x1F3B]),
     (0x1F34, [0x1F3C]), (0x1F35, [0x1F3D]), (0x1F36, [0x1F3E]), (0x1F37, [0x1F3F]),
     (0x1F40, [0x1F48]), (0x1F41, [0x1F49]), (0x1F42, [0x1F4A]), (0x1F43, [0x1F4B]),
     (0x1F44, [0x1F4C]), (0x1F45, [0x1F4D]), (0x1F50, [0x3A5, 0x313]), (0x1F51, [0x1F59]),
     (0x1F52, [0x3A5, 0x313, 0x300]), (0x1F53, [0x1F5B]), (0x1F54, [0x3A5, 0x313, 0x301]),
     (0x1F55, [0x1F5D]), (0x1F56, [0x3A5, 0x313, 0x342]), (0x1F57, [0x1F5F]),
     (0x1F60, [0x1F68]), (0x1F61, [0x1F69]), (0x1F62, [0x1F6A]), (0x1F63, [0x1F6B]),
     (0x1F64, [0x1F6C]), (0x1F65, [0x1F6D]), (0x1F66, [0x1F6E]), (0x1F67, [0x1F6F]),
     (0x1F70, [0x1FBA]), (0x1F71, [0x1FBB]), (0x1F72, [0x1FC8]), (0x1F73, [0x1FC9]),
     (0x1F74, [0x1FCA]), (0x1F75, [0x1FCB]), (0x1F76, [0x1FDA]), (0x1F77, [0x1FDB]),
     (0x1F78, [0x1FF8]), (0x1F79, [0x1FF9]), (0x1F7A, [0x1FEA]), (0x1F7B, [0x1FEB]),
     (0x1F7C, [0x1FFA]), (0x1F7D, [0x1FFB]), (0x1F80, [0x1F08, 0x399]),
     (0x1F81, [0x1F09, 0x399]), (0x1F82, [0x1F0A, 0x399]), (0x1F83, [0x1F0B, 0x399]),
     (0x1F84, [0x1F0C, 0x399]), (0x1F85, [0x1F0D, 0x399]), (0x1F86, [0x1F0E, 0x399]),
     (0x1F87, [0x1F0F, 0x399]), (0x1F88, [0x1F08, 0x399]), (0x1F89, [0x1F09, 0x399]),
     (0x1F8A, [0x1F0A, 0x399]), (0x1F8B, [0x1F0B, 0x399]), (0x1F8C, [0x1F0C, 0x399]),
     (0x1F8D, [0x1F0D, 0x399]), (0x1F8E, [0x1F0E, 0x399]), (0x1F8F, [0x1F0F, 0x399]),
     (0x1F90, [0x1F28, 0x399]), (0x1F91, [0x1F29, 0x399]), (0x1F92, [0x1F2A, 0x399]),
     (0x1F93, [0x1F2B, 0x399]), (0x1F94, [0x1F2C, 0x399]), (0x1F95, [0x1F2D, 0x399]),
     (0x1F96, [0x1F2E, 0x399]), (0x1F97, [0x1F2F, 0x399]), (0x1F98, [0x1F28, 0x399]),
     (0x1F99, [0x1F29, 0x399]), (0x1F9A, [0x1F2A, 0x399]), (0x1F9B, [0x1F2B, 0x399]),
     (0x1F9C, [0x1F2C, 0x399]), (0x1F9D, [0x1F2D, 0x399]), (0x1F9E, [0x1F2E, 0x399]),
     (0x1F9F, [0x1F2F, 0x399]), (0x1FA0, [0x1F68, 0x399]), (0x1FA1, [0x1F69, 0x399]),
     (0x1FA2, [0x1F6A, 0x399]), (0x1FA3, [0x1F6B, 0x399]), (0x1FA4, [0x1F6C, 0x399]),
     (0x1FA5, [0x1F6D, 0x399]), (0x1FA6, [0x1F6E, 0x399]), (0x1FA7, [0x1F6F, 0x399]),
     (0x1FA8, [0x1F68, 0x399]), (0x1FA9, [0x1F69, 0x399]), (0x1FAA, [0x1F6A, 0x399]),
     (0x1FAB, [0x1F6B, 0x399]), (0x1FAC, [0x1F6C, 0x399]), (0x1FAD, [0x1F6D, 0x399]),
     (0x1FAE, [0x1F6E, 0x399]), (0x1FAF, [0x1F6F, 0x399]), (0x1FB0, [0x1FB8]),
     (0x1FB1, [0x1FB9]), (0x1FB2, [0x1FBA, 0x399]), (0x1FB3, [0x391, 0x399]),
     (0x1FB4, [0x386, 0x399]), (0x1FB6, [0x391, 0x342]), (0x1FB7, [0x391, 0x342, 0x399]),
     (0x1FBC, [0x391, 0x399]), (0x1FBE, [0x399]), (0x1FC2, [0x1FCA, 0x399]),
     (0x1FC3, [0x397, 0x399]), (0x1FC4, [0x389, 0x399]), (0x1FC6, [0x397, 0x342]),
     (0x1FC7, [0x397, 0x342, 0x399]), (0x1FCC, [0x397, 0x399]), (0x1FD0, [0x1FD8]),
     (0x1FD1, [0x1FD9]), (0x1FD2, [0x399, 0x308, 0x300]), (0x1FD3, [0x399, 0x308, 0x301]),
     (0x1FD6, [0x399, 0x342]), (0x1FD7, [0x399, 0x308, 0x342]), (0x1FE0, [0x1FE8]),
     (0x1FE1, [0x1FE9]), (0x1FE2, [0x3A5, 0x308, 0x300]), (0x1FE3, [0x3A5, 0x308, 0x301]),
     (0x1FE4, [0x3A1, 0x313]), (0x1FE5, [0x1FEC]), (0x1FE6, [0x3A5, 0x342]),
     (0x1FE7, [0x3A5, 0x308, 0x342]), (0x1FF2, [0x1FFA, 0x399]), (0x1FF3, [0x3A9, 0x399]),
     (0x1FF4, [0x38F, 0x399]), (0x1FF6, [0x3A9, 0x342]), (0x1FF7, [0x3A9, 0x342, 0x399]),
     (0x1FFC, [0x3A9, 0x399]), (0x214E, [0x2132]), (0x2170, [0x2160]), (0x2171, [0x2161]),
     (0x2172, [0x2162]), (0x2173, [0x2163]), (0x2174, [0x2164]), (0x2175, [0x2165]),
     (0x2176, [0x2166]), (0x2177, [0x2167]), (0x2178, [0x2168]), (0x2179, [0x2169]),
     (0x217A, [0x216A]), (0x217B, [0x216B]), (0x217C, [0x216C]), (0x217D, [0x216D]),
     (0x217E, [0x216E]), (0x217F, [0x216F]), (0x2184, [0x2183]), (0x24D0, [0x24B6]),
     (0x24D1, [0x24B7]), (0x24D2, [0x24B8]), (0x24D3, [0x24B9]), (0x24D4, [0x24BA]),
     (0x24D5, [0x24BB]), (0x24D6, [0x24BC]), (0x24D7, [0x24BD]), (0x24D8, [0x24BE]),
     (0x24D9, [0x24BF]), (0x24DA, [0x24C0]), (0x24DB, [0x24C1]), (0x24DC, [0x24C2]),
     (0x24DD, [0x24C3]), (0x24DE, [0x24C4]), (0x24DF, [0x24C5]), (0x24E0, [0x24C6]),
     (0x24E1, [0x24C7]), (0x24E2, [0x24C8]), (0x24E3, [0x24C9]), (0x24E4, [0x24CA]),
     (0x24E5, [0x24CB]), (0x24E6, [0x24CC]), (0x24E7, [0x24CD]), (0x24E8, [0x24CE]),
     (0x24E9, [0x24CF]), (0x2C30, [0x2C00]), (0x2C31, [0x2C01]), (0x2C32, [0x2C02]),
     (0x2C33, [0x2C03]), (0x2C34, [0x2C04]), (0x2C35, [0x2C05]), (0x2C36, [0x2C06]),
     (0x2C37, [0x2C07]), (0x2C38, [0x2C08]), (0x2C39, [0x2C09]), (0x2C3A, [0x2C0A]),
     (0x2C3B, [0x2C0B]), (0x2C3C, [0x2C0C]), (0x2C3D, [0x2C0D]), (0x2C3E, [0x2C0E]),
     (0x2C3F, [0x2C0F]), (0x2C40, [0x2C10]), (0x2C41, [0x2C11]), (0x2C42, [0x2C12]),
     (0x2C43, [0x2C13]), (0x2C44, [0x2C14]), (0x2C45, [0x2C15]), (0x2C46, [0x2C16]),
     (0x2C47, [0x2C17]), (0x2C48, [0x2C18]), (0x2C49, [0x2C19]), (0x2C4A, [0x2C1A]),
     (0x2C4B, [0x2C1B]), (0x2C4C, [0x2C1C]), (0x2C4D, [0x2C1D]), (0x2C4E, [0x2C1E]),
     (0x2C4F, [0x2C1F]), (0x2C50, [0x2C20]), (0x2C51, [0x2C21]), (0x2C52, [0x2C22]),
     (0x2C53, [0x2C23]), (0x2C54, [0x2C24]), (0x2C55, [0x2C25]), (0x2C56, [0x2C26])]"

definition upper_table_4 :: "(nat \<times> unicode) list" where
  "upper_table_4 =
    [(0x2C57, [0x2C27]), (0x2C58, [0x2C28]), (0x2C59, [0x2C29]), (0x2C5A, [0x2C2A]),
     (0x2C5B, [0x2C2B]), (0x2C5C, [0x2C2C]), (0x2C5D, [0x2C2D]), (0x2C5E, [0x2C2E]),
     (0x2C5F, [0x2C2F]), (0x2C61, [0x2C60]), (0x2C65, [0x23A]), (0x2C66, [0x23E]),
     (0x2C68, [0x2C67]), (0x2C6A, [0x2C69]), (0x2C6C, [0x2C6B]), (0x2C73, [0x2C72]),
     (0x2C76, [0x2C75]), (0x2C81, [0x2C80]), (0x2C83, [0x2C82]), (0x2C85, [0x2C84]),
     (0x2C87, [0x2C86]), (0x2C89, [0x2C88]), (0x2C8B, [0x2C8A]), (0x2C8D, [0x2C8C]),
     (0x2C8F, [0x2C8E]), (0x2C91, [0x2C90]), (0x2C93, [0x2C92]), (0x2C95, [0x2C94]),
     (0x2C97, [0x2C96]), (0x2C99, [0x2C98]), (0x2C9B, [0x2C9A]), (0x2C9D, [0x2C9C]),
     (0x2C9F, [0x2C9E]), (0x2CA1, [0x2CA0]), (0x2CA3, [0x2CA2]), (0x2CA5, [0x2CA4]),
     (0x2CA7, [0x2CA6]), (0x2CA9, [0x2CA8]), (0x2CAB, [0x2CAA]), (0x2CAD, [0x2CAC]),
     (0x2CAF, [0x2CAE]), (0x2CB1, [0x2CB0]), (0x2CB3, [0x2CB2]), (0x2CB5, [0x2CB4]),
     (0x2CB7, [0x2CB6]), (0x2CB9, [0x2CB8]), (0x2CBB, [0x2CBA]), (0x2CBD, [0x2CBC]),
     (0x2CBF, [0x2CBE]), (0x2CC1, [0x2CC0]), (0x2CC3, [0x2CC2]), (0x2CC5, [0x2CC4]),
     (0x2CC7, [0x2CC6]), (0x2CC9, [0x2CC8]), (0x2CCB, [0x2CCA]), (0x2CCD, [0x2CCC]),
     (0x2CCF, [0x2CCE]), (0x2CD1, [0x2CD0]), (0x2CD3, [0x2CD2]), (0x2CD5, [0x2CD4]),
     (0x2CD7, [0x2CD6]), (0x2CD9, [0x2CD8]), (0x2CDB, [0x2CDA]), (0x2CDD, [0x2CDC]),
     (0x2CDF, [0x2CDE]), (0x2CE1, [0x2CE0]), (0x2CE3, [0x2CE2]), (0x2CEC, [0x2CEB]),
     (0x2CEE, [0x2CED]), (0x2CF3, [0x2CF2]), (0x2D00, [0x10A0]), (0x2D01, [0x10A1]),
     (0x2D02, [0x10A2]), (0x2D03, [0x10A3]), (0x2D04, [0x10A4]), (0x2D05, [0x10A5]),
     (0x2D06, [0x10A6]), (0x2D07, [0x10A7]), (0x2D08, [0x10A8]), (0x2D09, [0x10A9]),
     (0x2D0A, [0x10AA]), (0x2D0B, [0x10AB]), (0x2D0C, [0x10AC]), (0x2D0D, [0x10AD]),
     (0x2D0E, [0x10AE]), (0x2D0F, [0x10AF]), (0x2D10, [0x10B0]), (0x2D11, [0x10B1]),
     (0x2D12, [0x10B2]), (0x2D13, [0x10B3]), (0x2D14, [0x10B4]), (0x2D15, [0x10B5]),
     (0x2D16, [0x10B6]), (0x2D17, [0x10B7]), (0x2D18, [0x10B8]), (0x2D19, [0x10B9]),
     (0x2D1A, [0x10BA]), (0x2D1B, [0x10BB]), (0x2D1C, [0x10BC]), (0x2D1D, [0x10BD]),
     (0x2D1E, [0x10BE]), (0x2D1F, [0x10BF]), (0x2D20, [0x10C0]), (0x2D21, [0x10C1]),
     (0x2D22, [0x10C2]), (0x2D23, [0x10C3]), (0x2D24, [0x10C4]), (0x2D25, [0x10C5]),
     (0x2D27, [0x10C7]), (0x2D2D, [0x10CD]), (0xA641, [0xA640]), (0xA643, [0xA642]),
     (0xA645, [0xA644]), (0xA647, [0xA646]), (0xA649, [0xA648]), (0xA64B, [0xA64A]),
     (0xA64D, [0xA64C]), (0xA64F, [0xA64E]), (0xA651, [0xA650]), (0xA653, [0xA652]),
     (0xA655, [0xA654]), (0xA657, [0xA656]), (0xA659, [0xA658]), (0xA65B, [0xA65A]),
     (0xA65D, [0xA65C]), (0xA65F, [0xA65E]), (0xA661, [0xA660]), (0xA663, [0xA662]),
     (0xA665, [0xA664]), (0xA667, [0xA666]), (0xA669, [0xA668]), (0xA66B, [0xA66A]),
     (0xA66D, [0xA66C]), (0xA681, [0xA680]), (0xA683, [0xA682]), (0xA685, [0xA684]),
     (0xA687, [0xA686]), (0xA689, [0xA688]), (0xA68B, [0xA68A]), (0xA68D, [0xA68C]),
     (0xA68F, [0xA68E]), (0xA691, [0xA690]), (0xA693, [0xA692]), (0xA695, [0xA694]),
     (0xA697, [0xA696]), (0xA699, [0xA698]), (0xA69B, [0xA69A]), (0xA723, [0xA722]),
     (0xA725, [0xA724]), (0xA727, [0xA726]), (0xA729, [0xA728]), (0xA72B, [0xA72A]),
     (0xA72D, [0xA72C]), (0xA72F, [0xA72E]), (0xA733, [0xA732]), (0xA735, [0xA734]),
     (0xA737, [0xA736]), (0xA739, [0xA738]), (0xA73B, [0xA73A]), (0xA73D, [0xA73C]),
     (0xA73F, [0xA73E]), (0xA741, [0xA740]), (0xA743, [0xA742]), (0xA745, [0xA744]),
     (0xA747, [0xA746]), (0xA749, [0xA748]), (0xA74B, [0xA74A]), (0xA74D, [0xA74C]),
     (0xA74F, [0xA74E]), (0xA751, [0xA750]), (0xA753, [0xA752]), (0xA755, [0xA754]),
     (0xA757, [0xA756]), (0xA759, [0xA758]), (0xA75B, [0xA75A]), (0xA75D, [0xA75C]),
     (0xA75F, [0xA75E]), (0xA761, [0xA760]), (0xA763, [0xA762]), (0xA765, [0xA764]),
     (0xA767, [0xA766]), (0xA769, [0xA768]), (0xA76B, [0xA76A]), (0xA76D, [0xA76C]),
     (0xA76F, [0xA76E]), (0xA77A, [0xA779]), (0xA77C, [0xA77B]), (0xA77F, [0xA77E]),
     (0xA781, [0xA780]), (0xA783, [0xA782]), (0xA785, [0xA784]), (0xA787, [0xA786]),
     (0xA78C, [0xA78B]), (0xA791, [0xA790]), (0xA793, [0xA792]), (0xA794, [0xA7C4]),
     (0xA797, [0xA796]), (0xA799, [0xA798]), (0xA79B, [0xA79A]), (0xA79D, [0xA79C]),
     (0xA79F, [0xA79E]), (0xA7A1, [0xA7A0]), (0xA7A3, [0xA7A2]), (0xA7A5, [0xA7A4]),
     (0xA7A7, [0xA7A6]), (0xA7A9, [0xA7A8]), (0xA7B5, [0xA7B4]), (0xA7B7, [0xA7B6]),
     (0xA7B9, [0xA7B8]), (0xA7BB, [0xA7BA]), (0xA7BD, [0xA7BC]), (0xA7BF, [0xA7BE]),
     (0xA7C1, [0xA7C0]), (0xA7C3, [0xA7C2]), (0xA7C8, [0xA7C7]), (0xA7CA, [0xA7C9]),
     (0xA7D1, [0xA7D0]), (0xA7D7, [0xA7D6]), (0xA7D9, [0xA7D8]), (0xA7F6, [0xA7F5]),
     (0xAB53, [0xA7B3]), (0xAB70, [0x13A0]), (0xAB71, [0x13A1]), (0xAB72, [0x13A2]),
     (0xAB73, [0x13A3]), (0xAB74, [0x13A4]), (0xAB75, [0x13A5]), (0xAB76, [0x13A6]),
     (0xAB77, [0x13A7]), (0xAB78, [0x13A8]), (0xAB79, [0x13A9]), (0xAB7A, [0x13AA]),
     (0xAB7B, [0x13AB]), (0xAB7C, [0x13AC]), (0xAB7D, [0x13AD]), (0xAB7E, [0x13AE]),
     (0xAB7F, [0x13AF]), (0xAB80, [0x13B0]), (0xAB81, [0x13B1]), (0xAB82, [0x13B2]),
     (0xAB83, [0x13B3]), (0xAB84, [0x13B4]), (0xAB85, [0x13B5]), (0xAB86, [0x13B6]),
     (0xAB87, [0x13B7]), (0xAB88, [0x13B8]), (0xAB89, [0x13B9]), (0xAB8A, [0x13BA]),
     (0xAB8B, [0x13BB]), (0xAB8C, [0x13BC]), (0xAB8D, [0x13BD]), (0xAB8E, [0x13BE]),
     (0xAB8F, [0x13BF]), (0xAB90, [0x13C0]), (0xAB91, [0x13C1]), (0xAB92, [0x13C2]),
     (0xAB93, [0x13C3]), (0xAB94, [0x13C4]), (0xAB95, [0x13C5]), (0xAB96, [0x13C6]),
     (0xAB97, [0x13C7]), (0xAB98, [0x13C8]), (0xAB99, [0x13C9]), (0xAB9A, [0x13CA]),
     (0xAB9B, [0x13CB]), (0xAB9C, [0x13CC]), (0xAB9D, [0x13CD]), (0xAB9E, [0x13CE]),
     (0xAB9F, [0x13CF]), (0xABA0, [0x13D0]), (0xABA1, [0x13D1]), (0xABA2, [0x13D2]),
     (0xABA3, [0x13D3]), (0xABA4, [0x13D4]), (0xABA5, [0x13D5]), (0xABA6, [0x13D6]),
     (0xABA7, [0x13D7]), (0xABA8, [0x13D8]), (0xABA9, [0x13D9]), (0xABAA, [0x13DA]),
     (0xABAB, [0x13DB]), (0xABAC, [0x13DC]), (0xABAD, [0x13DD]), (0xABAE, [0x13DE]),
     (0xABAF, [0x13DF]), (0xABB0, [0x13E0]), (0xABB1, [0x13E1]), (0xABB2, [0x13E2]),
     (0xABB3, [0x13E3]), (0xABB4, [0x13E4]), (0xABB5, [0x13E5]), (0xABB6, [0x13E6]),
     (0xABB7, [0x13E7]), (0xABB8, [0x13E8]), (0xABB9, [0x13E9]), (0xABBA, [0x13EA]),
     (0xABBB, [0x13EB]), (0xABBC, [0x13EC]), (0xABBD, [0x13ED]), (0xABBE, [0x13EE])]"

definition upper_table_5 :: "(nat \<times> unicode) list" where
  "upper_table_5 =
    [(0xABBF, [0x13EF]), (0xFB00, [0x46, 0x46]), (0xFB01, [0x46, 0x49]),
     (0xFB02, [0x46, 0x4C]), (0xFB03, [0x46, 0x46, 0x49]), (0xFB04, [0x46, 0x46, 0x4C]),
     (0xFB05, [0x53, 0x54]), (0xFB06, [0x53, 0x54]), (0xFB13, [0x544, 0x546]),
     (0xFB14, [0x544, 0x535]), (0xFB15, [0x544, 0x53B]), (0xFB16, [0x54E, 0x546]),
     (0xFB17, [0x544, 0x53D]), (0xFF41, [0xFF21]), (0xFF42, [0xFF22]), (0xFF43, [0xFF23]),
     (0xFF44, [0xFF24]), (0xFF45, [0xFF25]), (0xFF46, [0xFF26]), (0xFF47, [0xFF27]),
     (0xFF48, [0xFF28]), (0xFF49, [0xFF29]), (0xFF4A, [0xFF2A]), (0xFF4B, [0xFF2B]),
     (0xFF4C, [0xFF2C]), (0xFF4D, [0xFF2D]), (0xFF4E, [0xFF2E]), (0xFF4F, [0xFF2F]),
     (0xFF50, [0xFF30]), (0xFF51, [0xFF31]), (0xFF52, [0xFF32]), (0xFF53, [0xFF33]),
     (0xFF54, [0xFF34]), (0xFF55, [0xFF35]), (0xFF56, [0xFF36]), (0xFF57, [0xFF37]),
     (0xFF58, [0xFF38]), (0xFF59, [0xFF39]), (0xFF5A, [0xFF3A]), (0x10428, [0x10400]),
     (0x10429, [0x10401]), (0x1042A, [0x10402]), (0x1042B, [0x10403]),
     (0x1042C, [0x10404]), (0x1042D, [0x10405]), (0x1042E, [0x10406]),
     (0x1042F, [0x10407]), (0x10430, [0x10408]), (0x10431, [0x10409]),
     (0x10432, [0x1040A]), (0x10433, [0x1040B]), (0x10434, [0x1040C]),
     (0x10435, [0x1040D]), (0x10436, [0x1040E]), (0x10437, [0x1040F]),
     (0x10438, [0x10410]), (0x10439, [0x10411]), (0x1043A, [0x10412]),
     (0x1043B, [0x10413]), (0x1043C, [0x10414]), (0x1043D, [0x10415]),
     (0x1043E, [0x10416]), (0x1043F, [0x10417]), (0x10440, [0x10418]),
     (0x10441, [0x10419]), (0x10442, [0x1041A]), (0x10443, [0x1041B]),
     (0x10444, [0x1041C]), (0x10445, [0x1041D]), (0x10446, [0x1041E]),
     (0x10447, [0x1041F]), (0x10448, [0x10420]), (0x10449, [0x10421]),
     (0x1044A, [0x10422]), (0x1044B, [0x10423]), (0x1044C, [0x10424]),
     (0x1044D, [0x10425]), (0x1044E, [0x10426]), (0x1044F, [0x10427]),
     (0x104D8, [0x104B0]), (0x104D9, [0x104B1]), (0x104DA, [0x104B2]),
     (0x104DB, [0x104B3]), (0x104DC, [0x104B4]), (0x104DD, [0x104B5]),
     (0x104DE, [0x104B6]), (0x104DF, [0x104B7]), (0x104E0, [0x104B8]),
     (0x104E1, [0x104B9]), (0x104E2, [0x104BA]), (0x104E3, [0x104BB]),
     (0x104E4, [0x104BC]), (0x104E5, [0x104BD]), (0x104E6, [0x104BE]),
     (0x104E7, [0x104BF]), (0x104E8, [0x104C0]), (0x104E9, [0x104C1]),
     (0x104EA, [0x104C2]), (0x104EB, [0x104C3]), (0x104EC, [0x104C4]),
     (0x104ED, [0x104C5]), (0x104EE, [0x104C6]), (0x104EF, [0x104C7]),
     (0x104F0, [0x104C8]), (0x104F1, [0x104C9]), (0x104F2, [0x104CA]),
     (0x104F3, [0x104CB]), (0x104F4, [0x104CC]), (0x104F5, [0x104CD]),
     (0x104F6, [0x104CE]), (0x104F7, [0x104CF]), (0x104F8, [0x104D0]),
     (0x104F9, [0x104D1]), (0x104FA, [0x104D2]), (0x104FB, [0x104D3]),
     (0x10597, [0x10570]), (0x10598, [0x10571]), (0x10599, [0x10572]),
     (0x1059A, [0x10573]), (0x1059B, [0x10574]), (0x1059C, [0x10575]),
     (0x1059D, [0x10576]), (0x1059E, [0x10577]), (0x1059F, [0x10578]),
     (0x105A0, [0x10579]), (0x105A1, [0x1057A]), (0x105A3, [0x1057C]),
     (0x105A4, [0x1057D]), (0x105A5, [0x1057E]), (0x105A6, [0x1057F]),
     (0x105A7, [0x10580]), (0x105A8, [0x10581]), (0x105A9, [0x10582]),
     (0x105AA, [0x10583]), (0x105AB, [0x10584]), (0x105AC, [0x10585]),
     (0x105AD, [0x10586]), (0x105AE, [0x10587]), (0x105AF, [0x10588]),
     (0x105B0, [0x10589]), (0x105B1, [0x1058A]), (0x105B3, [0x1058C]),
     (0x105B4, [0x1058D]), (0x105B5, [0x1058E]), (0x105B6, [0x1058F]),
     (0x105B7, [0x10590]), (0x105B8, [0x10591]), (0x105B9, [0x10592]),
     (0x105BB, [0x10594]), (0x105BC, [0x10595]), (0x10CC0, [0x10C80]),
     (0x10CC1, [0x10C81]), (0x10CC2, [0x10C82]), (0x10CC3, [0x10C83]),
     (0x10CC4, [0x10C84]), (0x10CC5, [0x10C85]), (0x10CC6, [0x10C86]),
     (0x10CC7, [0x10C87]), (0x10CC8, [0x10C88]), (0x10CC9, [0x10C89]),
     (0x10CCA, [0x10C8A]), (0x10CCB, [0x10C8B]), (0x10CCC, [0x10C8C]),
     (0x10CCD, [0x10C8D]), (0x10CCE, [0x10C8E]), (0x10CCF, [0x10C8F]),
     (0x10CD0, [0x10C90]), (0x10CD1, [0x10C91]), (0x10CD2, [0x10C92]),
     (0x10CD3, [0x10C93]), (0x10CD4, [0x10C94]), (0x10CD5, [0x10C95]),
     (0x10CD6, [0x10C96]), (0x10CD7, [0x10C97]), (0x10CD8, [0x10C98]),
     (0x10CD9, [0x10C99]), (0x10CDA, [0x10C9A]), (0x10CDB, [0x10C9B]),
     (0x10CDC, [0x10C9C]), (0x10CDD, [0x10C9D]), (0x10CDE, [0x10C9E]),
     (0x10CDF, [0x10C9F]), (0x10CE0, [0x10CA0]), (0x10CE1, [0x10CA1]),
     (0x10CE2, [0x10CA2]), (0x10CE3, [0x10CA3]), (0x10CE4, [0x10CA4]),
     (0x10CE5, [0x10CA5]), (0x10CE6, [0x10CA6]), (0x10CE7, [0x10CA7]),
     (0x10CE8, [0x10CA8]), (0x10CE9, [0x10CA9]), (0x10CEA, [0x10CAA]),
     (0x10CEB, [0x10CAB]), (0x10CEC, [0x10CAC]), (0x10CED, [0x10CAD]),
     (0x10CEE, [0x10CAE]), (0x10CEF, [0x10CAF]), (0x10CF0, [0x10CB0]),
     (0x10CF1, [0x10CB1]), (0x10CF2, [0x10CB2]), (0x118C0, [0x118A0]),
     (0x118C1, [0x118A1]), (0x118C2, [0x118A2]), (0x118C3, [0x118A3]),
     (0x118C4, [0x118A4]), (0x118C5, [0x118A5]), (0x118C6, [0x118A6]),
     (0x118C7, [0x118A7]), (0x118C8, [0x118A8]), (0x118C9, [0x118A9]),
     (0x118CA, [0x118AA]), (0x118CB, [0x118AB]), (0x118CC, [0x118AC]),
     (0x118CD, [0x118AD]), (0x118CE, [0x118AE]), (0x118CF, [0x118AF]),
     (0x118D0, [0x118B0]), (0x118D1, [0x118B1]), (0x118D2, [0x118B2]),
     (0x118D3, [0x118B3]), (0x118D4, [0x118B4]), (0x118D5, [0x118B5]),
     (0x118D6, [0x118B6]), (0x118D7, [0x118B7]), (0x118D8, [0x118B8]),
     (0x118D9, [0x118B9]), (0x118DA, [0x118BA]), (0x118DB, [0x118BB]),
     (0x118DC, [0x118BC]), (0x118DD, [0x118BD]), (0x118DE, [0x118BE]),
     (0x118DF, [0x118BF]), (0x16E60, [0x16E40]), (0x16E61, [0x16E41]),
     (0x16E62, [0x16E42]), (0x16E63, [0x16E43]), (0x16E64, [0x16E44]),
     (0x16E65, [0x16E45]), (0x16E66, [0x16E46]), (0x16E67, [0x16E47]),
     (0x16E68, [0x16E48]), (0x16E69, [0x16E49]), (0x16E6A, [0x16E4A]),
     (0x16E6B, [0x16E4B]), (0x16E6C, [0x16E4C]), (0x16E6D, [0x16E4D]),
     (0x16E6E, [0x16E4E]), (0x16E6F, [0x16E4F]), (0x16E70, [0x16E50]),
     (0x16E71, [0x16E51]), (0x16E72, [0x16E52]), (0x16E73, [0x16E53]),
     (0x16E74, [0x16E54]), (0x16E75, [0x16E55]), (0x16E76, [0x16E56]),
     (0x16E77, [0x16E57]), (0x16E78, [0x16E58]), (0x16E79, [0x16E59]),
     (0x16E7A, [0x16E5A]), (0x16E7B, [0x16E5B]), (0x16E7C, [0x16E5C]),
     (0x16E7D, [0x16E5D]), (0x16E7E, [0x16E5E]), (0x16E7F, [0x16E5F]),
     (0x1E922, [0x1E900]), (0x1E923, [0x1E901]), (0x1E924, [0x1E902]),
     (0x1E925, [0x1E903]), (0x1E926, [0x1E904]), (0x1E927, [0x1E905]),
     (0x1E928, [0x1E906]), (0x1E929, [0x1E907]), (0x1E92A, [0x1E908]),
     (0x1E92B, [0x1E909]), (0x1E92C, [0x1E90A]), (0x1E92D, [0x1E90B]),
     (0x1E92E, [0x1E90C]), (0x1E92F, [0x1E90D]), (0x1E930, [0x1E90E]),
     (0x1E931, [0x1E90F]), (0x1E932, [0x1E910]), (0x1E933, [0x1E911]),
     (0x1E934, [0x1E912]), (0x1E935, [0x1E913]), (0x1E936, [0x1E914]),
     (0x1E937, [0x1E915]), (0x1E938, [0x1E916]), (0x1E939, [0x1E917]),
     (0x1E93A, [0x1E918]), (0x1E93B, [0x1E919]), (0x1E93C, [0x1E91A]),
     (0x1E93D, [0x1E91B]), (0x1E93E, [0x1E91C]), (0x1E93F, [0x1E91D]),
     (0x1E940, [0x1E91E]), (0x1E941, [0x1E91F]), (0x1E942, [0x1E920]), (0x1E943, [0x1E921])]"

definition upper_table :: "(nat \<times> unicode) list" where
  "upper_table = upper_table_1 @ upper_table_2 @ upper_table_3 @ upper_table_4 @ upper_table_5"

definition upper_char :: "nat \<Rightarrow> unicode" where
  "upper_char c =
     (if c < 128 then (if 97 \<le> c \<and> c \<le> 122 then [c - 32] else [c])
      else case map_of upper_table c of Some u \<Rightarrow> u | None \<Rightarrow> [c])"

definition upper :: "unicode \<Rightarrow> unicode" where
  "upper s = concat (map upper_char s)"

section \<open>Exceptions\<close>

text \<open>
  A call either returns a value or raises an exception that \<open>except Exception\<close> catches.
\<close>

datatype 'a outcome = Returned 'a | Raised

text \<open>\<open>f"{n}"\<close> for an integer \<open>n\<close>: \<open>str(n)\<close>, which raises beyond the limit of digits.\<close>

definition format_int :: "nat \<Rightarrow> int \<Rightarrow> unicode outcome" where
  "format_int max_digits n =
     (if over_limit max_digits (length (str_nat (nat \<bar>n\<bar>))) then Raised
      else Returned (ascii (str n)))"

section \<open>\<open>is_valid_ip\<close>\<close>

text \<open>
  \<open>re.match(r"^\d{1,3}(\.\d{1,3}){3}$", ip)\<close>: four groups of one to three digits with dots
  between them. Python's \<open>$\<close> matches at the end of the string and also just before a
  newline that ends the string, so one closing newline is let through.
\<close>

definition ip_pattern :: "unicode \<Rightarrow> bool" where
  "ip_pattern ip =
     (let body = (if ip \<noteq> [] \<and> last ip = 0x0A then butlast ip else ip);
          groups = split_on 0x2E body
      in length groups = 4 \<and>
         list_all (\<lambda>g. 1 \<le> length g \<and> length g \<le> 3 \<and> list_all is_digit g) groups)"

text \<open>
  \<open>all(0 <= int(part) <= 255 for part in parts)\<close> stops at the first part out of range;
  an \<open>int(part)\<close> that fails would raise out of \<open>is_valid_ip\<close>.
\<close>

fun all_octets :: "nat \<Rightarrow> unicode list \<Rightarrow> bool outcome" where
  "all_octets max_digits [] = Returned True"
| "all_octets max_digits (part # parts) =
     (case py_int max_digits part of
        None \<Rightarrow> Raised
      | Some v \<Rightarrow> if 0 \<le> v \<and> v \<le> 255 then all_octets max_digits parts else Returned False)"

definition is_valid_ip :: "nat \<Rightarrow> unicode \<Rightarrow> bool outcome" where
  "is_valid_ip max_digits ip =
     (if ip_pattern ip then all_octets max_digits (split_on 0x2E ip) else Returned False)"

section \<open>The messages\<close>

text \<open>The messages are Czech; their letters outside ASCII are given by code point.\<close>

definition a_acute :: unicode where "a_acute = [0xE1]"
definition e_acute :: unicode where "e_acute = [0xE9]"
definition i_acute :: unicode where "i_acute = [0xED]"
definition y_acute :: unicode where "y_acute = [0xFD]"
definition u_acute :: unicode where "u_acute = [0xFA]"
definition u_ring :: unicode where "u_ring = [0x16F]"
definition c_caron :: unicode where "c_caron = [0x10D]"
definition e_caron :: unicode where "e_caron = [0x11B]"
definition n_caron :: unicode where "n_caron = [0x148]"
definition r_caron :: unicode where "r_caron = [0x159]"
definition s_caron :: unicode where "s_caron = [0x161]"
definition z_caron :: unicode where "z_caron = [0x17E]"

lemmas czech_letters =
  a_acute_def e_acute_def i_acute_def y_acute_def u_acute_def u_ring_def
  c_caron_def e_caron_def n_caron_def r_caron_def s_caron_def z_caron_def

definition msg_empty :: unicode where
  \<comment> \<open>"ER Prazdny prikaz."\<close>
  "msg_empty =
     ascii ''ER Pr'' @ a_acute @ ascii ''zdn'' @ y_acute @ ascii '' p'' @ r_caron @ i_acute @
     ascii ''kaz.''"

definition msg_wrong_format :: "string \<Rightarrow> unicode" where
  \<comment> \<open>"ER Prikaz BC ma spatny format.", and the same for the other seven verbs\<close>
  "msg_wrong_format verb =
     ascii ''ER P'' @ r_caron @ i_acute @ ascii ''kaz '' @ ascii verb @ ascii '' m'' @ a_acute @
     ascii '' '' @ s_caron @ ascii ''patn'' @ y_acute @ ascii '' form'' @ a_acute @ ascii ''t.''"

definition msg_bank_mismatch :: unicode where
  \<comment> \<open>"ER Banka neodpovida."\<close>
  "msg_bank_mismatch = ascii ''ER Banka neodpov'' @ i_acute @ ascii ''d'' @ a_acute @ ascii ''.''"

definition msg_amount_format :: unicode where
  \<comment> \<open>"ER cislo bankovniho uctu a castka neni ve spravnem formatu."\<close>
  "msg_amount_format =
     ascii ''ER '' @ c_caron @ i_acute @ ascii ''slo bankovn'' @ i_acute @ ascii ''ho '' @
     u_acute @ c_caron @ ascii ''tu a '' @ c_caron @ a_acute @ ascii ''stka nen'' @ i_acute @
     ascii '' ve spr'' @ a_acute @ ascii ''vn'' @ e_acute @ ascii ''m form'' @ a_acute @
     ascii ''tu.''"

definition msg_unknown :: unicode where
  \<comment> \<open>"ER Neznamy prikaz."\<close>
  "msg_unknown =
     ascii ''ER Nezn'' @ a_acute @ ascii ''m'' @ y_acute @ ascii '' p'' @ r_caron @ i_acute @
     ascii ''kaz.''"

definition msg_application_error :: unicode where
  \<comment> \<open>"ER Chyba v aplikaci, prosim zkuste to pozdeji."\<close>
  "msg_application_error =
     ascii ''ER Chyba v aplikaci, pros'' @ i_acute @ ascii ''m zkuste to pozd'' @ e_caron @
     ascii ''ji.''"

definition msg_account_format :: unicode where
  \<comment> \<open>"Format cisla uctu neni spravny."\<close>
  "msg_account_format =
     ascii ''Form'' @ a_acute @ ascii ''t '' @ c_caron @ i_acute @ ascii ''sla '' @ u_acute @
     c_caron @ ascii ''tu nen'' @ i_acute @ ascii '' spr'' @ a_acute @ ascii ''vn'' @ y_acute @
     ascii ''.''"

definition msg_ip_format :: unicode where
  \<comment> \<open>"Format IP adresy neni spravny."\<close>
  "msg_ip_format =
     ascii ''Form'' @ a_acute @ ascii ''t IP adresy nen'' @ i_acute @ ascii '' spr'' @ a_acute @
     ascii ''vn'' @ y_acute @ ascii ''.''"

text \<open>
  The four error strings that the methods of \<open>BankData\<close> return, under the names the
  specification gives them.
\<close>

datatype ledger_error = CapacityExceeded | AccountNotFound | InsufficientFunds | NonZeroBalance

fun message :: "ledger_error \<Rightarrow> unicode" where
  \<comment> \<open>"Nase banka nyni neumoznuje zalozeni noveho uctu."\<close>
  "message CapacityExceeded =
     ascii ''Na'' @ s_caron @ ascii ''e banka nyn'' @ i_acute @ ascii '' neumo'' @ z_caron @
     n_caron @ ascii ''uje zalo'' @ z_caron @ ascii ''en'' @ i_acute @ ascii '' nov'' @
     e_acute @ ascii ''ho '' @ u_acute @ c_caron @ ascii ''tu.''"
  \<comment> \<open>"Bankovni ucet neexistuje."\<close>
| "message AccountNotFound =
     ascii ''Bankovn'' @ i_acute @ ascii '' '' @ u_acute @ c_caron @ ascii ''et neexistuje.''"
  \<comment> \<open>"Neni dostatek financnich prostredku."\<close>
| "message InsufficientFunds =
     ascii ''Nen'' @ i_acute @ ascii '' dostatek finan'' @ c_caron @ ascii ''n'' @ i_acute @
     ascii ''ch prost'' @ r_caron @ ascii ''edk'' @ u_ring @ ascii ''.''"
  \<comment> \<open>"Nelze smazat bankovni ucet na kterem jsou finance."\<close>
| "message NonZeroBalance =
     ascii ''Nelze smazat bankovn'' @ i_acute @ ascii '' '' @ u_acute @ c_caron @
     ascii ''et na kter'' @ e_acute @ ascii ''m jsou finance.''"

section \<open>\<open>BankData\<close>: the ledger and its file\<close>

text \<open>
  \<open>self.accounts\<close> is a Python dict from \<open>str(account_number)\<close> to the balance: a list of
  pairs in insertion order, read with \<^const>\<open>map_of\<close>, written with \<^const>\<open>AList.update\<close>
  (in place for a key that is there, at the end for a new one) and \<^const>\<open>AList.delete\<close>.
  The file at \<open>self.data_file\<close> is part of the state. It is missing, or something that
  \<open>json.load\<close> followed by \<open>data.get\<close> raises on, or a JSON object, of which the two fields
  the program reads are kept; each may be absent. \<open>json.dump\<close> and \<open>json.load\<close> are taken to
  be inverse to each other on what \<open>save\<close> writes, and a file whose \<open>last_account\<close> is not an
  integer or whose \<open>accounts\<close> is not an object of integers is outside the model.
  \<open>self.lock\<close> makes every method run alone, so a method is a function on the state.
\<close>

record stored =
  st_last_account :: "int option"
  st_accounts :: "(string \<times> int) list option"

datatype file_content = NoFile | Unreadable | Parsed stored

record bank_data =
  last_account :: int
  accounts :: "(string \<times> int) list"
  data_file :: file_content

definition load :: "bank_data \<Rightarrow> bank_data" where
  "load s =
     (case data_file s of
        Parsed d \<Rightarrow>
          s\<lparr>last_account := (case st_last_account d of Some n \<Rightarrow> n | None \<Rightarrow> 9999),
            accounts := (case st_accounts d of Some a \<Rightarrow> a | None \<Rightarrow> [])\<rparr>
      | Unreadable \<Rightarrow> s\<lparr>last_account := 9999, accounts := []\<rparr>
      | NoFile \<Rightarrow> s\<lparr>last_account := 9999, accounts := []\<rparr>)"

definition BankData :: "file_content \<Rightarrow> bank_data" where
  \<comment> \<open>\<open>BankData.__init__\<close>\<close>
  "BankData f = load \<lparr>last_account = 9999, accounts = [], data_file = f\<rparr>"

text \<open>
  What the file system does to a \<open>save\<close> is not the program's choice: the write goes
  through, or \<open>open\<close> raises and the file stays, or the write raises after \<open>open\<close> has
  emptied the file. \<open>save\<close> catches the exception and returns in each case. The second
  outcome is also that of a \<open>save\<close> whose log line, written before \<open>open\<close>, raises because
  a balance has more digits than the limit above.
\<close>

datatype write_outcome = Written | OpenFailed | WriteFailed

definition save :: "write_outcome \<Rightarrow> bank_data \<Rightarrow> bank_data" where
  "save w s =
     (case w of
        Written \<Rightarrow>
          s\<lparr>data_file :=
              Parsed \<lparr>st_last_account = Some (last_account s), st_accounts = Some (accounts s)\<rparr>\<rparr>
      | OpenFailed \<Rightarrow> s
      | WriteFailed \<Rightarrow> s\<lparr>data_file := Unreadable\<rparr>)"

definition create_account :: "write_outcome \<Rightarrow> bank_data \<Rightarrow> (ledger_error + int) \<times> bank_data" where
  "create_account w s =
     (if last_account s \<ge> 99999 then (Inl CapacityExceeded, s)
      else
        let account_number = last_account s + 1;
            s1 = s\<lparr>last_account := account_number,
                   accounts := AList.update (str account_number) 0 (accounts s)\<rparr>
        in (Inr account_number, save w s1))"

definition deposit :: "write_outcome \<Rightarrow> int \<Rightarrow> int \<Rightarrow> bank_data \<Rightarrow> ledger_error option \<times> bank_data" where
  "deposit w account_number amount s =
     (case map_of (accounts s) (str account_number) of
        None \<Rightarrow> (Some AccountNotFound, s)
      | Some balance \<Rightarrow>
          (None, save w (s\<lparr>accounts := AList.update (str account_number) (balance + amount) (accounts s)\<rparr>)))"

definition withdraw :: "write_outcome \<Rightarrow> int \<Rightarrow> int \<Rightarrow> bank_data \<Rightarrow> ledger_error option \<times> bank_data" where
  "withdraw w account_number amount s =
     (case map_of (accounts s) (str account_number) of
        None \<Rightarrow> (Some AccountNotFound, s)
      | Some balance \<Rightarrow>
          if balance < amount then (Some InsufficientFunds, s)
          else (None, save w (s\<lparr>accounts := AList.update (str account_number) (balance - amount) (accounts s)\<rparr>)))"

definition get_balance :: "int \<Rightarrow> bank_data \<Rightarrow> int option" where
  "get_balance account_number s = map_of (accounts s) (str account_number)"

definition remove_account :: "write_outcome \<Rightarrow> int \<Rightarrow> bank_data \<Rightarrow> ledger_error option \<times> bank_data" where
  "remove_account w account_number s =
     (case map_of (accounts s) (str account_number) of
        None \<Rightarrow> (Some AccountNotFound, s)
      | Some balance \<Rightarrow>
          if balance \<noteq> 0 then (Some NonZeroBalance, s)
          else (None, save w (s\<lparr>accounts := AList.delete (str account_number) (accounts s)\<rparr>)))"

definition total_amount :: "bank_data \<Rightarrow> int" where
  "total_amount s = sum_list (map snd (accounts s))"

definition number_of_clients :: "bank_data \<Rightarrow> int" where
  "number_of_clients s = int (length (accounts s))"

subsection \<open>Sequences of calls\<close>

datatype call =
    CreateAccount
  | Deposit int int
  | Withdraw int int
  | GetBalance int
  | RemoveAccount int
  | TotalAmount
  | NumberOfClients

datatype reply =
    Created "ledger_error + int"
  | Done "ledger_error option"
  | Balance "int option"
  | Number int

fun step :: "write_outcome \<times> call \<Rightarrow> bank_data \<Rightarrow> reply \<times> bank_data" where
  "step (w, CreateAccount) s = (let (r, s') = create_account w s in (Created r, s'))"
| "step (w, Deposit n a) s = (let (r, s') = deposit w n a s in (Done r, s'))"
| "step (w, Withdraw n a) s = (let (r, s') = withdraw w n a s in (Done r, s'))"
| "step (w, GetBalance n) s = (Balance (get_balance n s), s)"
| "step (w, RemoveAccount n) s = (let (r, s') = remove_account w n s in (Done r, s'))"
| "step (w, TotalAmount) s = (Number (total_amount s), s)"
| "step (w, NumberOfClients) s = (Number (number_of_clients s), s)"

fun run :: "(write_outcome \<times> call) list \<Rightarrow> bank_data \<Rightarrow> reply list \<times> bank_data" where
  "run [] s = ([], s)"
| "run (c # cs) s =
     (let (r, s1) = step c s; (rs, s2) = run cs s1 in (r # rs, s2))"

fun issued :: "reply list \<Rightarrow> int list" where
  \<comment> \<open>the account numbers that the calls of \<open>create_account\<close> returned, in order\<close>
  "issued [] = []"
| "issued (Created (Inr n) # rs) = n # issued rs"
| "issued (r # rs) = issued rs"

fun nonneg_call :: "write_outcome \<times> call \<Rightarrow> bool" where
  \<comment> \<open>the amount of a deposit or a withdrawal is not negative\<close>
  "nonneg_call (w, Deposit n a) = (0 \<le> a)"
| "nonneg_call (w, Withdraw n a) = (0 \<le> a)"
| "nonneg_call c = True"

section \<open>\<open>BankServer\<close>: the dispatcher\<close>

text \<open>
  \<open>self.bank_data\<close> is the object the server was built with. The dispatcher knows its
  seven methods only; each takes the state of the object, returns or raises, and leaves a
  state behind. \<open>bank_data_object\<close> is the \<open>BankData\<close> above, whose methods never raise.
  \<open>max_digits\<close> is the interpreter's limit on the digits of an integer, \<open>bank_ip\<close> the
  server's \<open>self.bank_ip\<close>.
\<close>

record 's ledger =
  l_create_account :: "'s \<Rightarrow> (ledger_error + int) outcome \<times> 's"
  l_deposit :: "int \<Rightarrow> int \<Rightarrow> 's \<Rightarrow> ledger_error option outcome \<times> 's"
  l_withdraw :: "int \<Rightarrow> int \<Rightarrow> 's \<Rightarrow> ledger_error option outcome \<times> 's"
  l_get_balance :: "int \<Rightarrow> 's \<Rightarrow> int option outcome \<times> 's"
  l_remove_account :: "int \<Rightarrow> 's \<Rightarrow> ledger_error option outcome \<times> 's"
  l_total_amount :: "'s \<Rightarrow> int outcome \<times> 's"
  l_number_of_clients :: "'s \<Rightarrow> int outcome \<times> 's"

definition returning :: "'a \<times> 's \<Rightarrow> 'a outcome \<times> 's" where
  "returning p = (Returned (fst p), snd p)"

definition bank_data_object :: "write_outcome \<Rightarrow> bank_data ledger" where
  "bank_data_object w =
     \<lparr>l_create_account = (\<lambda>s. returning (create_account w s)),
      l_deposit = (\<lambda>n a s. returning (deposit w n a s)),
      l_withdraw = (\<lambda>n a s. returning (withdraw w n a s)),
      l_get_balance = (\<lambda>n s. (Returned (get_balance n s), s)),
      l_remove_account = (\<lambda>n s. returning (remove_account w n s)),
      l_total_amount = (\<lambda>s. (Returned (total_amount s), s)),
      l_number_of_clients = (\<lambda>s. (Returned (number_of_clients s), s))\<rparr>"

definition parse_account_spec :: "nat \<Rightarrow> unicode \<Rightarrow> (unicode + int \<times> unicode) outcome" where
  "parse_account_spec max_digits spec =
     (let parts = split_on 0x2F spec in
      if length parts \<noteq> 2 then Returned (Inl msg_account_format)
      else
        let account_str = parts ! 0; ip = parts ! 1 in
        case py_int max_digits account_str of
          None \<Rightarrow> Returned (Inl msg_account_format)
        | Some account_number \<Rightarrow>
            if account_number < 10000 \<or> account_number > 99999
            then Returned (Inl msg_account_format)
            else (case is_valid_ip max_digits ip of
                    Raised \<Rightarrow> Raised
                  | Returned False \<Rightarrow> Returned (Inl msg_ip_format)
                  | Returned True \<Rightarrow> Returned (Inr (account_number, ip))))"

text \<open>
  \<open>amount = int(amount_str)\<close>, \<open>raise ValueError\<close> for a negative amount, and the bare
  \<open>except\<close> around both: \<^const>\<open>None\<close> is the branch that answers with the format error.
\<close>

definition parse_amount :: "nat \<Rightarrow> unicode \<Rightarrow> int option" where
  "parse_amount max_digits amount_str =
     (case py_int max_digits amount_str of
        None \<Rightarrow> None
      | Some amount \<Rightarrow> if amount < 0 then None else Some amount)"

text \<open>
  A response made of a fixed text and an integer, as in \<open>f"AB {balance}"\<close>; formatting the
  integer may raise.
\<close>

definition with_int :: "nat \<Rightarrow> string \<Rightarrow> int \<Rightarrow> unicode \<Rightarrow> 's \<Rightarrow> unicode outcome \<times> 's" where
  "with_int max_digits text_before n text_after s =
     (case format_int max_digits n of
        Raised \<Rightarrow> (Raised, s)
      | Returned t \<Rightarrow> (Returned (ascii text_before @ t @ text_after), s))"

text \<open>The branches of the \<open>if\<close>/\<open>elif\<close> chain, one definition each.\<close>

definition branch_BC :: "unicode \<Rightarrow> unicode list \<Rightarrow> 's \<Rightarrow> unicode outcome \<times> 's" where
  "branch_BC bank_ip tokens s =
     (if length tokens \<noteq> 1 then (Returned (msg_wrong_format ''BC''), s)
      else (Returned (ascii ''BC '' @ bank_ip), s))"

definition branch_AC ::
  "nat \<Rightarrow> 's ledger \<Rightarrow> unicode \<Rightarrow> unicode list \<Rightarrow> 's \<Rightarrow> unicode outcome \<times> 's" where
  "branch_AC max_digits bank_data bank_ip tokens s =
     (if length tokens \<noteq> 1 then (Returned (msg_wrong_format ''AC''), s)
      else
        case l_create_account bank_data s of
          (Raised, s') \<Rightarrow> (Raised, s')
        | (Returned (Inl err), s') \<Rightarrow> (Returned (ascii ''ER '' @ message err), s')
        | (Returned (Inr account_number), s') \<Rightarrow>
            with_int max_digits ''AC '' account_number (ascii ''/'' @ bank_ip) s')"

definition branch_AD ::
  "nat \<Rightarrow> 's ledger \<Rightarrow> unicode \<Rightarrow> unicode list \<Rightarrow> 's \<Rightarrow> unicode outcome \<times> 's" where
  "branch_AD max_digits bank_data bank_ip tokens s =
     (if length tokens \<noteq> 3 then (Returned (msg_wrong_format ''AD''), s)
      else
        let account_spec = tokens ! 1; amount_str = tokens ! 2 in
        case parse_account_spec max_digits account_spec of
          Raised \<Rightarrow> (Raised, s)
        | Returned (Inl err) \<Rightarrow> (Returned (ascii ''ER '' @ err), s)
        | Returned (Inr (account_number, ip_part)) \<Rightarrow>
            if ip_part \<noteq> bank_ip then (Returned msg_bank_mismatch, s)
            else
              case parse_amount max_digits amount_str of
                None \<Rightarrow> (Returned msg_amount_format, s)
              | Some amount \<Rightarrow>
                  (case l_deposit bank_data account_number amount s of
                     (Raised, s') \<Rightarrow> (Raised, s')
                   | (Returned (Some err), s') \<Rightarrow> (Returned (ascii ''ER '' @ message err), s')
                   | (Returned None, s') \<Rightarrow> (Returned (ascii ''AD''), s')))"

definition branch_AW ::
  "nat \<Rightarrow> 's ledger \<Rightarrow> unicode \<Rightarrow> unicode list \<Rightarrow> 's \<Rightarrow> unicode outcome \<times> 's" where
  "branch_AW max_digits bank_data bank_ip tokens s =
     (if length tokens \<noteq> 3 then (Returned (msg_wrong_format ''AW''), s)
      else
        let account_spec = tokens ! 1; amount_str = tokens ! 2 in
        case parse_account_spec max_digits account_spec of
          Raised \<Rightarrow> (Raised, s)
        | Returned (Inl err) \<Rightarrow> (Returned (ascii ''ER '' @ err), s)
        | Returned (Inr (account_number, ip_part)) \<Rightarrow>
            if ip_part \<noteq> bank_ip then (Returned msg_bank_mismatch, s)
            else
              case parse_amount max_digits amount_str of
                None \<Rightarrow> (Returned msg_amount_format, s)
              | Some amount \<Rightarrow>
                  (case l_withdraw bank_data account_number amount s of
                     (Raised, s') \<Rightarrow> (Raised, s')
                   | (Returned (Some err), s') \<Rightarrow> (Returned (ascii ''ER '' @ message err), s')
                   | (Returned None, s') \<Rightarrow> (Returned (ascii ''AW''), s')))"

definition branch_AB ::
  "nat \<Rightarrow> 's ledger \<Rightarrow> unicode \<Rightarrow> unicode list \<Rightarrow> 's \<Rightarrow> unicode outcome \<times> 's" where
  "branch_AB max_digits bank_data bank_ip tokens s =
     (if length tokens \<noteq> 2 then (Returned (msg_wrong_format ''AB''), s)
      else
        let account_spec = tokens ! 1 in
        case parse_account_spec max_digits account_spec of
          Raised \<Rightarrow> (Raised, s)
        | Returned (Inl err) \<Rightarrow> (Returned (ascii ''ER '' @ err), s)
        | Returned (Inr (account_number, ip_part)) \<Rightarrow>
            if ip_part \<noteq> bank_ip then (Returned msg_bank_mismatch, s)
            else
              case l_get_balance bank_data account_number s of
                (Raised, s') \<Rightarrow> (Raised, s')
              | (Returned None, s') \<Rightarrow> (Returned (ascii ''ER '' @ message AccountNotFound), s')
              | (Returned (Some balance), s') \<Rightarrow> with_int max_digits ''AB '' balance [] s')"

definition branch_AR ::
  "nat \<Rightarrow> 's ledger \<Rightarrow> unicode \<Rightarrow> unicode list \<Rightarrow> 's \<Rightarrow> unicode outcome \<times> 's" where
  "branch_AR max_digits bank_data bank_ip tokens s =
     (if length tokens \<noteq> 2 then (Returned (msg_wrong_format ''AR''), s)
      else
        let account_spec = tokens ! 1 in
        case parse_account_spec max_digits account_spec of
          Raised \<Rightarrow> (Raised, s)
        | Returned (Inl err) \<Rightarrow> (Returned (ascii ''ER '' @ err), s)
        | Returned (Inr (account_number, ip_part)) \<Rightarrow>
            if ip_part \<noteq> bank_ip then (Returned msg_bank_mismatch, s)
            else
              case l_remove_account bank_data account_number s of
                (Raised, s') \<Rightarrow> (Raised, s')
              | (Returned (Some err), s') \<Rightarrow> (Returned (ascii ''ER '' @ message err), s')
              | (Returned None, s') \<Rightarrow> (Returned (ascii ''AR''), s'))"

definition branch_BA :: "nat \<Rightarrow> 's ledger \<Rightarrow> unicode list \<Rightarrow> 's \<Rightarrow> unicode outcome \<times> 's" where
  "branch_BA max_digits bank_data tokens s =
     (if length tokens \<noteq> 1 then (Returned (msg_wrong_format ''BA''), s)
      else
        case l_total_amount bank_data s of
          (Raised, s') \<Rightarrow> (Raised, s')
        | (Returned total_sum, s') \<Rightarrow> with_int max_digits ''BA '' total_sum [] s')"

definition branch_BN :: "nat \<Rightarrow> 's ledger \<Rightarrow> unicode list \<Rightarrow> 's \<Rightarrow> unicode outcome \<times> 's" where
  "branch_BN max_digits bank_data tokens s =
     (if length tokens \<noteq> 1 then (Returned (msg_wrong_format ''BN''), s)
      else
        case l_number_of_clients bank_data s of
          (Raised, s') \<Rightarrow> (Raised, s')
        | (Returned count, s') \<Rightarrow> with_int max_digits ''BN '' count [] s')"

text \<open>The body of the \<open>try\<close>.\<close>

definition dispatch ::
  "nat \<Rightarrow> 's ledger \<Rightarrow> unicode \<Rightarrow> unicode \<Rightarrow> unicode list \<Rightarrow> 's \<Rightarrow> unicode outcome \<times> 's" where
  "dispatch max_digits bank_data bank_ip cmd tokens s =
     (if cmd = ascii ''BC'' then branch_BC bank_ip tokens s
      else if cmd = ascii ''AC'' then branch_AC max_digits bank_data bank_ip tokens s
      else if cmd = ascii ''AD'' then branch_AD max_digits bank_data bank_ip tokens s
      else if cmd = ascii ''AW'' then branch_AW max_digits bank_data bank_ip tokens s
      else if cmd = ascii ''AB'' then branch_AB max_digits bank_data bank_ip tokens s
      else if cmd = ascii ''AR'' then branch_AR max_digits bank_data bank_ip tokens s
      else if cmd = ascii ''BA'' then branch_BA max_digits bank_data tokens s
      else if cmd = ascii ''BN'' then branch_BN max_digits bank_data tokens s
      else (Returned msg_unknown, s))"

definition process_command ::
  "nat \<Rightarrow> 's ledger \<Rightarrow> unicode \<Rightarrow> unicode \<Rightarrow> 's \<Rightarrow> unicode \<times> 's" where
  "process_command max_digits bank_data bank_ip command_line s =
     (let tokens = split_ws command_line in
      if tokens = [] then (msg_empty, s)
      else
        let cmd = upper (hd tokens) in
        case dispatch max_digits bank_data bank_ip cmd tokens s of
          (Returned response, s') \<Rightarrow> (response, s')
        | (Raised, s') \<Rightarrow> (msg_application_error, s'))"

section \<open>Predicates on responses and example ledgers\<close>

text \<open>
  \<open>er_response\<close>: what the body of the \<open>try\<close> leaves becomes a response that begins with
  \<open>ER \<close>. \<open>er_or_verb\<close>: it becomes a response that begins with \<open>ER \<close> or with the verb, one
  of the eight. \<open>no_newline\<close>: it becomes a response without a newline.
  \<open>same_but_negative\<close>: two ledgers that differ at most in what \<open>deposit\<close> and \<open>withdraw\<close> do
  with a negative amount. \<open>refusing_ledger\<close> raises in every method and empties the
  accounts; \<open>checking_ledger\<close> is \<open>BankData\<close> except that it does so for a negative amount.
\<close>

definition er_response :: "unicode outcome \<Rightarrow> bool" where
  "er_response r = (case r of Raised \<Rightarrow> True | Returned m \<Rightarrow> take 3 m = ascii ''ER '')"

definition verbs :: "unicode list" where
  "verbs = map ascii [''BC'', ''AC'', ''AD'', ''AW'', ''AB'', ''AR'', ''BA'', ''BN'']"

definition er_or_verb :: "unicode \<Rightarrow> unicode outcome \<Rightarrow> bool" where
  "er_or_verb verb r =
     (case r of
        Raised \<Rightarrow> True
      | Returned m \<Rightarrow> take 3 m = ascii ''ER '' \<or> take 2 m = verb \<and> verb \<in> set verbs)"

definition no_newline :: "unicode outcome \<Rightarrow> bool" where
  "no_newline r = (case r of Raised \<Rightarrow> True | Returned m \<Rightarrow> 0x0A \<notin> set m)"

definition refusing_ledger :: "bank_data ledger" where
  "refusing_ledger =
     \<lparr>l_create_account = (\<lambda>s. (Raised, s\<lparr>accounts := []\<rparr>)),
      l_deposit = (\<lambda>n a s. (Raised, s\<lparr>accounts := []\<rparr>)),
      l_withdraw = (\<lambda>n a s. (Raised, s\<lparr>accounts := []\<rparr>)),
      l_get_balance = (\<lambda>n s. (Raised, s\<lparr>accounts := []\<rparr>)),
      l_remove_account = (\<lambda>n s. (Raised, s\<lparr>accounts := []\<rparr>)),
      l_total_amount = (\<lambda>s. (Raised, s\<lparr>accounts := []\<rparr>)),
      l_number_of_clients = (\<lambda>s. (Raised, s\<lparr>accounts := []\<rparr>))\<rparr>"

definition same_but_negative :: "'s ledger \<Rightarrow> 's ledger \<Rightarrow> bool" where
  "same_but_negative bd bd' =
     (l_create_account bd' = l_create_account bd \<and> l_get_balance bd' = l_get_balance bd \<and>
      l_remove_account bd' = l_remove_account bd \<and> l_total_amount bd' = l_total_amount bd \<and>
      l_number_of_clients bd' = l_number_of_clients bd \<and>
      (\<forall>n a s. 0 \<le> a \<longrightarrow> l_deposit bd' n a s = l_deposit bd n a s) \<and>
      (\<forall>n a s. 0 \<le> a \<longrightarrow> l_withdraw bd' n a s = l_withdraw bd n a s))"

definition checking_ledger :: "bank_data ledger" where
  "checking_ledger =
     (bank_data_object Written)
       \<lparr>l_deposit := (\<lambda>n a s. if a < 0 then (Raised, s\<lparr>accounts := []\<rparr>)
                               else returning (deposit Written n a s)),
        l_withdraw := (\<lambda>n a s. if a < 0 then (Raised, s\<lparr>accounts := []\<rparr>)
                                else returning (withdraw Written n a s))\<rparr>"

text \<open>The address and the limit of digits that the examples use.\<close>

definition node_ip :: unicode where
  "node_ip = ascii ''10.0.0.5''"

definition default_max_digits :: nat where
  "default_max_digits = 4300"

section \<open>Invariants and example inputs\<close>

text \<open>
  Two invariants of the ledger: every key of \<open>accounts\<close> is \<open>str\<close> of a number up to the
  counter, and no balance is negative.
\<close>

definition keys_issued :: "bank_data \<Rightarrow> bool" where
  "keys_issued s = (\<forall>k v. map_of (accounts s) k = Some v \<longrightarrow> (\<exists>m. k = str m \<and> m \<le> last_account s))"

definition balances_nonneg :: "bank_data \<Rightarrow> bool" where
  "balances_nonneg s = (\<forall>k v. map_of (accounts s) k = Some v \<longrightarrow> 0 \<le> v)"

definition all_creates :: "(write_outcome \<times> call) list" where
  "all_creates = replicate 90000 (Written, CreateAccount)"

definition create_remove_create :: "(write_outcome \<times> call) list" where
  "create_remove_create = [(Written, CreateAccount), (Written, RemoveAccount 10000), (OpenFailed, CreateAccount)]"

definition deposit_and_withdraw :: "(write_outcome \<times> call) list" where
  "deposit_and_withdraw =
     [(Written, CreateAccount), (Written, Deposit 10000 500), (Written, Withdraw 10000 600),
      (Written, GetBalance 10000), (Written, Withdraw 10000 500), (Written, GetBalance 10000)]"

definition one_account :: bank_data where
  "one_account = \<lparr>last_account = 10000, accounts = [(''10000'', 0)],
     data_file = Parsed \<lparr>st_last_account = Some 10000, st_accounts = Some [(''10000'', 0)]\<rparr>\<rparr>"

definition create_then_ask :: "(write_outcome \<times> call) list" where
  "create_then_ask = [(Written, CreateAccount), (Written, GetBalance 10000)]"


definition full_ledger :: bank_data where
  \<comment> \<open>the counter at its ceiling, one account with a balance of 5 left\<close>
  "full_ledger = \<lparr>last_account = 99999, accounts = [(''10000'', 5)], data_file = NoFile\<rparr>"

section \<open>\<open>int(str(i))\<close> is \<open>i\<close>\<close>

lemma digit_char_code: "d < 10 \<Longrightarrow> of_char (digit_char d) = 48 + d"
proof -
  assume "d < 10"
  then have "d \<in> {0, 1, 2, 3, 4, 5, 6, 7, 8, 9}" by auto
  then show ?thesis by (auto simp: digit_char_def)
qed

lemma str_nat_nonempty: "str_nat n \<noteq> []"
  by (subst str_nat.simps) simp

lemma str_nat_range: "\<forall>c \<in> set (ascii (str_nat n)). 48 \<le> c \<and> c \<le> 57"
proof (induction n rule: str_nat.induct)
  case (1 n)
  show ?case
  proof (cases "n < 10")
    case True
    then show ?thesis by (subst str_nat.simps) (simp add: ascii_def digit_char_code)
  next
    case False
    with 1 show ?thesis by (subst str_nat.simps) (auto simp: ascii_def digit_char_code)
  qed
qed

lemma ascii_digit:
  assumes "48 \<le> c \<and> c \<le> 57"
  shows "digit_of c = Some (c - 48)" and "is_digit c" and "\<not> is_int_space c"
    and "c \<noteq> 0x2D" and "c \<noteq> 0x2B" and "c \<noteq> 0x0A"
  using assms by (auto simp: digit_of_def is_digit_def is_int_space_def)

lemma str_nat_digits: "list_all is_digit (ascii (str_nat n))"
  using str_nat_range [of n] by (auto simp: list_all_iff ascii_digit)

lemma py_digits_run:
  "list_all is_digit ds \<Longrightarrow>
   py_digits b acc (ds @ rest) = py_digits (b \<or> ds \<noteq> []) (digits_value acc ds) rest"
  by (induction ds arbitrary: b acc) (auto simp: digits_value_def is_digit_def)

lemma digits_value_str_nat: "digits_value 0 (ascii (str_nat n)) = n"
proof (induction n rule: str_nat.induct)
  case (1 n)
  show ?case
  proof (cases "n < 10")
    case True
    then show ?thesis
      by (subst str_nat.simps) (simp add: digits_value_def ascii_def digit_char_code ascii_digit)
  next
    case False
    then have "digits_value 0 (ascii (str_nat (n div 10))) = n div 10" using 1 by simp
    then show ?thesis using False
      by (subst str_nat.simps) (simp add: digits_value_def ascii_def digit_char_code ascii_digit)
  qed
qed

lemma ascii_str_nat_nonempty: "ascii (str_nat n) \<noteq> []"
  by (simp add: ascii_def str_nat_nonempty)

lemma py_digits_str_nat: "py_digits False 0 (ascii (str_nat n)) = Some n"
  using py_digits_run [OF str_nat_digits, of False 0 n "[]"]
  by (simp add: digits_value_str_nat ascii_str_nat_nonempty)

lemma int_strip_id:
  assumes "s \<noteq> []" "\<not> is_int_space (hd s)" "\<not> is_int_space (last s)"
  shows "int_strip s = s"
proof -
  have a: "dropWhile is_int_space s = s" using assms by (cases s) auto
  have "rev s \<noteq> []" "\<not> is_int_space (hd (rev s))" using assms by (auto simp: hd_rev)
  then have "dropWhile is_int_space (rev s) = rev s" by (cases "rev s") auto
  with a show ?thesis by (simp add: int_strip_def)
qed

lemma py_int_str: "py_int 0 (ascii (str i)) = Some i"
proof -
  let ?n = "nat \<bar>i\<bar>"
  let ?ds = "ascii (str_nat ?n)"
  have ne: "?ds \<noteq> []" by (rule ascii_str_nat_nonempty)
  then obtain c cs where cs: "?ds = c # cs" by (cases ?ds) auto
  have rng: "\<forall>c \<in> set ?ds. 48 \<le> c \<and> c \<le> 57" by (rule str_nat_range)
  then have c: "48 \<le> c \<and> c \<le> 57" using cs by simp
  have l: "48 \<le> last ?ds \<and> last ?ds \<le> 57" using rng ne last_in_set by blast
  have num: "py_number 0 ?ds = Some ?n"
    by (simp add: py_number_def over_limit_def py_digits_str_nat)
  show ?thesis
  proof (cases "i < 0")
    case True
    have "\<not> is_int_space (last (0x2D # ?ds))" using ne l by (simp add: ascii_digit)
    moreover have "\<not> is_int_space 0x2D" by (simp add: is_int_space_def is_space_def)
    ultimately have "int_strip (0x2D # ?ds) = 0x2D # ?ds" by (intro int_strip_id) auto
    moreover have "ascii (str i) = 0x2D # ?ds" using True by (simp add: str_def ascii_def)
    ultimately show ?thesis using True num by (simp add: py_int_def)
  next
    case False
    have "int_strip ?ds = ?ds" using c cs l ne by (intro int_strip_id) (auto simp: ascii_digit)
    moreover have "ascii (str i) = ?ds" using False by (simp add: str_def)
    ultimately show ?thesis using False num cs ascii_digit(4,5) [OF c]
      by (simp add: py_int_def)
  qed
qed

lemma str_inject: "str i = str j \<Longrightarrow> i = j"
  by (metis py_int_str option.inject)

section \<open>The ledger\<close>

lemmas eval_str = str_def str_nat.simps digit_char_def

text \<open>
  C9. When \<open>create_account\<close>, \<open>deposit\<close>, \<open>withdraw\<close> or \<open>remove_account\<close> returns an error,
  the error is one of the four domain errors and the whole state is as it was before the
  call: the counter, the accounts with their balances, and the file. This holds whatever
  the file system would have done to a write, so \<open>save\<close> has not been called.
\<close>

theorem error_leaves_ledger_unchanged:
  "(isl (fst (create_account w s)) \<longrightarrow> create_account w s = (Inl CapacityExceeded, s)) \<and>
   (fst (deposit w n a s) \<noteq> None \<longrightarrow> deposit w n a s = (Some AccountNotFound, s)) \<and>
   (fst (withdraw w n a s) \<noteq> None \<longrightarrow>
      snd (withdraw w n a s) = s \<and>
      fst (withdraw w n a s) \<in> {Some AccountNotFound, Some InsufficientFunds}) \<and>
   (fst (remove_account w n s) \<noteq> None \<longrightarrow>
      snd (remove_account w n s) = s \<and>
      fst (remove_account w n s) \<in> {Some AccountNotFound, Some NonZeroBalance})"
  by (auto simp: create_account_def deposit_def withdraw_def remove_account_def Let_def
      split: option.splits if_splits)

theorem error_leaves_ledger_unchanged_witness:
  "isl (fst (create_account Written full_ledger)) \<and>
   create_account Written full_ledger = (Inl CapacityExceeded, full_ledger) \<and>
   fst (deposit Written 10001 7 full_ledger) \<noteq> None \<and>
   deposit Written 10001 7 full_ledger = (Some AccountNotFound, full_ledger) \<and>
   fst (withdraw Written 10000 7 full_ledger) \<noteq> None \<and>
   withdraw Written 10000 7 full_ledger = (Some InsufficientFunds, full_ledger) \<and>
   fst (remove_account Written 10000 full_ledger) \<noteq> None \<and>
   remove_account Written 10000 full_ledger = (Some NonZeroBalance, full_ledger)"
  using error_leaves_ledger_unchanged [of Written full_ledger 10001 7]
    error_leaves_ledger_unchanged [of Written full_ledger 10000 7]
  by (simp add: full_ledger_def create_account_def deposit_def withdraw_def remove_account_def
      eval_str)

text \<open>
  C3. A deposit on an account that exists succeeds, and \<open>get_balance\<close> right after it
  returns the balance from before plus the amount, for every amount and so for every
  amount that is not negative. A deposit on an account that does not exist fails with
  \<open>AccountNotFound\<close> and changes nothing.
\<close>

theorem deposit_then_balance:
  "(get_balance n s = Some b \<longrightarrow>
      fst (deposit w n a s) = None \<and> get_balance n (snd (deposit w n a s)) = Some (b + a)) \<and>
   (get_balance n s = None \<longrightarrow> deposit w n a s = (Some AccountNotFound, s))"
  by (cases w) (auto simp: deposit_def get_balance_def save_def update_conv)

theorem deposit_then_balance_witness:
  "get_balance 10000 full_ledger = Some 5 \<and>
   fst (deposit Written 10000 500 full_ledger) = None \<and>
   get_balance 10000 (snd (deposit Written 10000 500 full_ledger)) = Some 505 \<and>
   get_balance 10001 full_ledger = None \<and>
   deposit Written 10001 500 full_ledger = (Some AccountNotFound, full_ledger)"
  using deposit_then_balance [of 10000 full_ledger 5 Written 500]
    deposit_then_balance [of 10001 full_ledger 5 Written 500]
  by (simp add: full_ledger_def get_balance_def eval_str)

section \<open>Sequences of calls on the ledger\<close>

lemma save_fields [simp]:
  "last_account (save w s) = last_account s" "accounts (save w s) = accounts s"
  by (cases w; simp add: save_def)+

lemma step_counter:
  assumes "step c s = (r, s1)"
  shows "(\<exists>n. r = Created (Inr n) \<and> n = last_account s + 1 \<and> last_account s1 = n \<and> last_account s < 99999)
       \<or> ((\<forall>n. r \<noteq> Created (Inr n)) \<and> last_account s1 = last_account s)"
proof (cases c)
  case (Pair w k)
  with assms show ?thesis
    by (cases k)
      (auto simp: create_account_def deposit_def withdraw_def remove_account_def Let_def
        split: option.splits if_splits)
qed

lemma issued_skip: "(\<forall>n. r \<noteq> Created (Inr n)) \<Longrightarrow> issued (r # rs) = issued rs"
proof (cases r)
  case (Created x)
  assume "\<forall>n. r \<noteq> Created (Inr n)"
  with Created show ?thesis by (cases x) auto
qed auto

lemma run_counter:
  "run cs s = (rs, s') \<Longrightarrow>
   last_account s \<le> last_account s' \<and> sorted_wrt (<) (issued rs) \<and>
   (\<forall>n \<in> set (issued rs). last_account s < n \<and> n \<le> last_account s') \<and>
   (last_account s \<le> 99999 \<longrightarrow> last_account s' \<le> 99999)"
proof (induction cs arbitrary: s rs s')
  case Nil
  then show ?case by simp
next
  case (Cons c cs)
  obtain r s1 where st: "step c s = (r, s1)" by (cases "step c s")
  obtain rs1 s2 where rn: "run cs s1 = (rs1, s2)" by (cases "run cs s1")
  from Cons.prems st rn have eq: "rs = r # rs1" "s' = s2" by auto
  note ih = Cons.IH [OF rn]
  from step_counter [OF st] show ?case
  proof
    assume "\<exists>n. r = Created (Inr n) \<and> n = last_account s + 1 \<and> last_account s1 = n \<and> last_account s < 99999"
    then obtain n where n: "r = Created (Inr n)" "n = last_account s + 1" "last_account s1 = n" "last_account s < 99999"
      by blast
    with ih eq show ?thesis by auto
  next
    assume a: "(\<forall>n. r \<noteq> Created (Inr n)) \<and> last_account s1 = last_account s"
    then have "issued (r # rs1) = issued rs1" by (simp add: issued_skip)
    with a ih eq show ?thesis by auto
  qed
qed

lemma sorted_less_distinct: "sorted_wrt (<) (xs :: int list) \<Longrightarrow> distinct xs"
  by (induction xs) auto

lemma run_creates:
  "last_account s + int k \<le> 99999 \<Longrightarrow>
   last_account (snd (run (replicate k (w, CreateAccount)) s)) = last_account s + int k"
proof (induction k arbitrary: s)
  case 0
  then show ?case by simp
next
  case (Suc k)
  let ?s1 = "snd (create_account w s)"
  from Suc.prems have la: "last_account ?s1 = last_account s + 1"
    by (simp add: create_account_def Let_def)
  with Suc.prems have "last_account ?s1 + int k \<le> 99999" by simp
  from Suc.IH [OF this] la show ?case
    by (simp add: split_beta Let_def)
qed

text \<open>
  C1. From a fresh ledger (counter 9999, no accounts), after any sequence of calls of the
  ledger's methods, with removals among them: the account numbers that \<open>create_account\<close>
  returned are strictly increasing in the order of the calls, hence pairwise distinct and
  never used twice, and each lies between 10000 and 99999. In the state reached,
  \<open>create_account\<close> fails exactly when the counter is 99999, the failure is
  \<open>CapacityExceeded\<close> and changes nothing; otherwise it returns the counter plus one, a
  number not returned before, which becomes the counter, and the new account has balance 0.
\<close>

theorem create_account_numbers:
  assumes "last_account s0 = 9999" and "accounts s0 = []" and "run cs s0 = (rs, s)"
  shows "sorted_wrt (<) (issued rs) \<and> distinct (issued rs) \<and>
    (\<forall>n \<in> set (issued rs). 10000 \<le> n \<and> n \<le> 99999) \<and>
    (isl (fst (create_account w s)) \<longleftrightarrow> last_account s = 99999) \<and>
    (last_account s = 99999 \<longrightarrow> create_account w s = (Inl CapacityExceeded, s)) \<and>
    (last_account s \<noteq> 99999 \<longrightarrow>
       fst (create_account w s) = Inr (last_account s + 1) \<and>
       last_account s + 1 \<notin> set (issued rs) \<and>
       last_account (snd (create_account w s)) = last_account s + 1 \<and>
       get_balance (last_account s + 1) (snd (create_account w s)) = Some 0)"
proof -
  note rc = run_counter [OF assms(3)]
  from rc assms(1) have bound: "9999 \<le> last_account s" "last_account s \<le> 99999" by auto
  have 1: "sorted_wrt (<) (issued rs)" using rc by simp
  then have 2: "distinct (issued rs)" by (rule sorted_less_distinct)
  have 3: "\<forall>n \<in> set (issued rs). 10000 \<le> n \<and> n \<le> 99999"
    using rc assms(1) bound by auto
  have 4: "isl (fst (create_account w s)) \<longleftrightarrow> last_account s = 99999"
    using bound by (auto simp: create_account_def Let_def)
  have 5: "last_account s = 99999 \<longrightarrow> create_account w s = (Inl CapacityExceeded, s)"
    by (simp add: create_account_def)
  have 6: "last_account s \<noteq> 99999 \<longrightarrow>
       fst (create_account w s) = Inr (last_account s + 1) \<and>
       last_account s + 1 \<notin> set (issued rs) \<and>
       last_account (snd (create_account w s)) = last_account s + 1 \<and>
       get_balance (last_account s + 1) (snd (create_account w s)) = Some 0"
    using bound rc by (auto simp: create_account_def Let_def get_balance_def update_conv)
  from 1 2 3 4 5 6 show ?thesis by blast
qed

lemma all_creates_counter: "last_account (snd (run all_creates (BankData NoFile))) = 99999"
proof -
  have "last_account (BankData NoFile) + int 90000 \<le> 99999"
    by (simp add: BankData_def load_def)
  from run_creates [OF this, of Written] show ?thesis
    by (simp add: all_creates_def BankData_def load_def)
qed

theorem create_account_numbers_witness:
  "last_account (BankData NoFile) = 9999 \<and> accounts (BankData NoFile) = [] \<and>
   issued (fst (run create_remove_create (BankData NoFile))) = [10000, 10001] \<and>
   last_account (snd (run create_remove_create (BankData NoFile))) \<noteq> 99999 \<and>
   fst (create_account Written (snd (run create_remove_create (BankData NoFile)))) = Inr 10002 \<and>
   get_balance 10002 (snd (create_account Written (snd (run create_remove_create (BankData NoFile))))) = Some 0 \<and>
   last_account (snd (run all_creates (BankData NoFile))) = 99999 \<and>
   create_account Written (snd (run all_creates (BankData NoFile))) =
     (Inl CapacityExceeded, snd (run all_creates (BankData NoFile)))"
proof -
  have f: "last_account (BankData NoFile) = 9999" "accounts (BankData NoFile) = []"
    by (simp_all add: BankData_def load_def)
  have small: "run create_remove_create (BankData NoFile) =
      ([Created (Inr 10000), Done None, Created (Inr 10001)],
       \<lparr>last_account = 10001, accounts = [(''10001'', 0)],
        data_file = Parsed \<lparr>st_last_account = Some 10000, st_accounts = Some []\<rparr>\<rparr>)"
    by (simp add: create_remove_create_def BankData_def load_def create_account_def
        remove_account_def save_def eval_str)
  have big: "run all_creates (BankData NoFile) =
      (fst (run all_creates (BankData NoFile)), snd (run all_creates (BankData NoFile)))"
    by simp
  from create_account_numbers [OF f small, of Written]
    create_account_numbers [OF f big, of Written] all_creates_counter f small
  show ?thesis by simp
qed

lemma step_nonneg:
  assumes "balances_nonneg s" and "nonneg_call c" and "step c s = (r, s1)"
  shows "balances_nonneg s1 \<and> (\<forall>b. r = Balance (Some b) \<longrightarrow> 0 \<le> b)"
proof (cases c)
  case (Pair w k)
  with assms show ?thesis
    by (cases k)
      (auto simp: balances_nonneg_def create_account_def deposit_def withdraw_def
        remove_account_def get_balance_def Let_def update_conv delete_conv
        split: option.splits if_splits)
qed

lemma run_nonneg:
  "balances_nonneg s \<Longrightarrow> list_all nonneg_call cs \<Longrightarrow> run cs s = (rs, s') \<Longrightarrow>
   balances_nonneg s' \<and> (\<forall>b. Balance (Some b) \<in> set rs \<longrightarrow> 0 \<le> b)"
proof (induction cs arbitrary: s rs s')
  case Nil
  then show ?case by simp
next
  case (Cons c cs)
  obtain r s1 where st: "step c s = (r, s1)" by (cases "step c s")
  obtain rs1 s2 where rn: "run cs s1 = (rs1, s2)" by (cases "run cs s1")
  from Cons.prems st rn have eq: "rs = r # rs1" "s' = s2" by auto
  from Cons.prems have c: "nonneg_call c" and cs: "list_all nonneg_call cs" by simp_all
  note s1 = step_nonneg [OF Cons.prems(1) c st]
  from Cons.IH [OF conjunct1 [OF s1] cs rn] s1 eq show ?case by auto
qed

text \<open>
  C2. On an account that exists, \<open>withdraw\<close> fails with \<open>InsufficientFunds\<close> and changes
  nothing when the amount is greater than the balance; otherwise it succeeds and the
  balance goes down by the amount. From a fresh ledger, after any sequence of calls whose
  amounts are not negative, no account has a negative balance and no balance that
  \<open>get_balance\<close> returned on the way was negative.
\<close>

theorem withdraw_checks_funds:
  "(get_balance n s = Some b \<and> b < a \<longrightarrow> withdraw w n a s = (Some InsufficientFunds, s)) \<and>
   (get_balance n s = Some b \<and> a \<le> b \<longrightarrow>
      fst (withdraw w n a s) = None \<and> get_balance n (snd (withdraw w n a s)) = Some (b - a)) \<and>
   (last_account s0 = 9999 \<and> accounts s0 = [] \<and> list_all nonneg_call cs \<and> run cs s0 = (rs, s')
      \<longrightarrow> (\<forall>m v. get_balance m s' = Some v \<longrightarrow> 0 \<le> v) \<and>
          (\<forall>v. Balance (Some v) \<in> set rs \<longrightarrow> 0 \<le> v))"
proof -
  have 1: "get_balance n s = Some b \<and> b < a \<longrightarrow> withdraw w n a s = (Some InsufficientFunds, s)"
    by (simp add: withdraw_def get_balance_def)
  have 2: "get_balance n s = Some b \<and> a \<le> b \<longrightarrow>
      fst (withdraw w n a s) = None \<and> get_balance n (snd (withdraw w n a s)) = Some (b - a)"
    by (simp add: withdraw_def get_balance_def update_conv)
  have 3: "last_account s0 = 9999 \<and> accounts s0 = [] \<and> list_all nonneg_call cs \<and> run cs s0 = (rs, s')
      \<longrightarrow> (\<forall>m v. get_balance m s' = Some v \<longrightarrow> 0 \<le> v) \<and>
          (\<forall>v. Balance (Some v) \<in> set rs \<longrightarrow> 0 \<le> v)"
  proof
    assume a: "last_account s0 = 9999 \<and> accounts s0 = [] \<and> list_all nonneg_call cs \<and> run cs s0 = (rs, s')"
    then have "balances_nonneg s0" by (simp add: balances_nonneg_def)
    from run_nonneg [OF this] a
    have "balances_nonneg s' \<and> (\<forall>b. Balance (Some b) \<in> set rs \<longrightarrow> 0 \<le> b)" by blast
    then show "(\<forall>m v. get_balance m s' = Some v \<longrightarrow> 0 \<le> v) \<and>
          (\<forall>v. Balance (Some v) \<in> set rs \<longrightarrow> 0 \<le> v)"
      by (auto simp: balances_nonneg_def get_balance_def)
  qed
  from 1 2 3 show ?thesis by blast
qed

theorem withdraw_checks_funds_witness:
  "get_balance 10000 full_ledger = Some 5 \<and> (5::int) < 7 \<and>
   withdraw Written 10000 7 full_ledger = (Some InsufficientFunds, full_ledger) \<and>
   (3::int) \<le> 5 \<and> fst (withdraw Written 10000 3 full_ledger) = None \<and>
   get_balance 10000 (snd (withdraw Written 10000 3 full_ledger)) = Some 2 \<and>
   last_account (BankData NoFile) = 9999 \<and> accounts (BankData NoFile) = [] \<and>
   list_all nonneg_call deposit_and_withdraw \<and>
   fst (run deposit_and_withdraw (BankData NoFile)) =
     [Created (Inr 10000), Done None, Done (Some InsufficientFunds), Balance (Some 500),
      Done None, Balance (Some 0)] \<and>
   accounts (snd (run deposit_and_withdraw (BankData NoFile))) = [(''10000'', 0)]"
proof -
  have r: "run deposit_and_withdraw (BankData NoFile) =
     ([Created (Inr 10000), Done None, Done (Some InsufficientFunds), Balance (Some 500),
       Done None, Balance (Some 0)],
      \<lparr>last_account = 10000, accounts = [(''10000'', 0)],
       data_file = Parsed \<lparr>st_last_account = Some 10000, st_accounts = Some [(''10000'', 0)]\<rparr>\<rparr>)"
    by (simp add: deposit_and_withdraw_def BankData_def load_def create_account_def
        deposit_def withdraw_def get_balance_def save_def eval_str)
  have n: "list_all nonneg_call deposit_and_withdraw" by (simp add: deposit_and_withdraw_def)
  have f: "last_account (BankData NoFile) = 9999" "accounts (BankData NoFile) = []"
    by (simp_all add: BankData_def load_def)
  have g: "get_balance 10000 full_ledger = Some 5"
    by (simp add: full_ledger_def get_balance_def eval_str)
  from withdraw_checks_funds [of 10000 full_ledger 5 7 Written "BankData NoFile"
      deposit_and_withdraw "fst (run deposit_and_withdraw (BankData NoFile))"
      "snd (run deposit_and_withdraw (BankData NoFile))"]
    withdraw_checks_funds [of 10000 full_ledger 5 3 Written "BankData NoFile"
      deposit_and_withdraw "fst (run deposit_and_withdraw (BankData NoFile))"
      "snd (run deposit_and_withdraw (BankData NoFile))"] f g n
  show ?thesis by (simp add: r)
qed

lemma keys_issued_save [simp]: "keys_issued (save w s) = keys_issued s"
  by (simp add: keys_issued_def)

lemma keys_issued_create:
  assumes "keys_issued s"
  shows "keys_issued (s\<lparr>last_account := last_account s + 1,
            accounts := AList.update (str (last_account s + 1)) v (accounts s)\<rparr>)"
  unfolding keys_issued_def
proof (intro allI impI)
  fix k b
  assume "map_of (accounts (s\<lparr>last_account := last_account s + 1,
            accounts := AList.update (str (last_account s + 1)) v (accounts s)\<rparr>)) k = Some b"
  then have m: "((map_of (accounts s))(str (last_account s + 1) \<mapsto> v)) k = Some b"
    by (simp add: update_conv)
  show "\<exists>m. k = str m \<and> m \<le> last_account (s\<lparr>last_account := last_account s + 1,
            accounts := AList.update (str (last_account s + 1)) v (accounts s)\<rparr>)"
  proof (cases "k = str (last_account s + 1)")
    case True
    then show ?thesis by auto
  next
    case False
    with m have "map_of (accounts s) k = Some b" by simp
    with assms obtain m where "k = str m" "m \<le> last_account s" unfolding keys_issued_def by blast
    then show ?thesis by auto
  qed
qed

lemma keys_issued_update_old:
  assumes "keys_issued s" and "map_of (accounts s) k = Some b"
  shows "keys_issued (s\<lparr>accounts := AList.update k v (accounts s)\<rparr>)"
  unfolding keys_issued_def
proof (intro allI impI)
  fix k' b'
  assume "map_of (accounts (s\<lparr>accounts := AList.update k v (accounts s)\<rparr>)) k' = Some b'"
  then have m: "((map_of (accounts s))(k \<mapsto> v)) k' = Some b'" by (simp add: update_conv)
  have "\<exists>x. map_of (accounts s) k' = Some x"
  proof (cases "k' = k")
    case True
    with assms(2) show ?thesis by simp
  next
    case False
    with m show ?thesis by simp
  qed
  with assms(1) show "\<exists>m. k' = str m \<and> m \<le> last_account (s\<lparr>accounts := AList.update k v (accounts s)\<rparr>)"
    unfolding keys_issued_def by auto
qed

lemma keys_issued_delete:
  assumes "keys_issued s"
  shows "keys_issued (s\<lparr>accounts := AList.delete k (accounts s)\<rparr>)"
  unfolding keys_issued_def
proof (intro allI impI)
  fix k' b'
  assume "map_of (accounts (s\<lparr>accounts := AList.delete k (accounts s)\<rparr>)) k' = Some b'"
  then have "map_of (accounts s) k' = Some b'"
    by (cases "k' = k") (simp_all add: delete_conv)
  with assms show "\<exists>m. k' = str m \<and> m \<le> last_account (s\<lparr>accounts := AList.delete k (accounts s)\<rparr>)"
    unfolding keys_issued_def by auto
qed

lemma step_keys:
  assumes "keys_issued s" and "step c s = (r, s1)"
  shows "keys_issued s1"
proof (cases c)
  case (Pair w k)
  show ?thesis
  proof (cases k)
    case CreateAccount
    with Pair assms(2) have "s1 = snd (create_account w s)" by (simp add: split_beta)
    then show ?thesis using assms(1) keys_issued_create [OF assms(1), of 0]
      by (simp add: create_account_def Let_def)
  next
    case (Deposit n a)
    with Pair assms(2) have "s1 = snd (deposit w n a s)" by (simp add: split_beta)
    then show ?thesis using assms(1)
      by (simp add: deposit_def keys_issued_update_old split: option.splits)
  next
    case (Withdraw n a)
    with Pair assms(2) have "s1 = snd (withdraw w n a s)" by (simp add: split_beta)
    then show ?thesis using assms(1)
      by (simp add: withdraw_def keys_issued_update_old split: option.splits)
  next
    case (RemoveAccount n)
    with Pair assms(2) have "s1 = snd (remove_account w n s)" by (simp add: split_beta)
    then show ?thesis using assms(1)
      by (simp add: remove_account_def keys_issued_delete split: option.splits)
  next
    case (GetBalance n)
    with Pair assms show ?thesis by simp
  next
    case TotalAmount
    with Pair assms show ?thesis by simp
  next
    case NumberOfClients
    with Pair assms show ?thesis by simp
  qed
qed

lemma run_keys: "keys_issued s \<Longrightarrow> run cs s = (rs, s') \<Longrightarrow> keys_issued s'"
proof (induction cs arbitrary: s rs s')
  case Nil
  then show ?case by simp
next
  case (Cons c cs)
  obtain r s1 where st: "step c s = (r, s1)" by (cases "step c s")
  obtain rs1 s2 where rn: "run cs s1 = (rs1, s2)" by (cases "run cs s1")
  from Cons.prems st rn have eq: "s' = s2" by auto
  from Cons.IH [OF step_keys [OF Cons.prems(1) st] rn] eq show ?case by simp
qed

lemma step_absent:
  assumes "get_balance n s = None" and "n \<le> last_account s" and "step c s = (r, s1)"
  shows "get_balance n s1 = None \<and> n \<le> last_account s1"
proof (cases c)
  case (Pair w k)
  show ?thesis
  proof (cases k)
    case CreateAccount
    have "str n \<noteq> str (last_account s + 1)" using assms(2) str_inject [of n "last_account s + 1"] by auto
    with CreateAccount Pair assms show ?thesis
      by (auto simp: get_balance_def create_account_def Let_def update_conv split: if_splits)
  next
    case (Deposit m a)
    with Pair assms show ?thesis
      by (auto simp: get_balance_def deposit_def update_conv split: option.splits if_splits)
  next
    case (Withdraw m a)
    with Pair assms show ?thesis
      by (auto simp: get_balance_def withdraw_def update_conv split: option.splits if_splits)
  next
    case (RemoveAccount m)
    with Pair assms show ?thesis
      by (auto simp: get_balance_def remove_account_def delete_conv split: option.splits if_splits)
  qed (use Pair assms in auto)
qed

lemma run_absent:
  "get_balance n s = None \<Longrightarrow> n \<le> last_account s \<Longrightarrow> run cs s = (rs, s') \<Longrightarrow>
   get_balance n s' = None"
proof (induction cs arbitrary: s rs s')
  case Nil
  then show ?case by simp
next
  case (Cons c cs)
  obtain r s1 where st: "step c s = (r, s1)" by (cases "step c s")
  obtain rs1 s2 where rn: "run cs s1 = (rs1, s2)" by (cases "run cs s1")
  from Cons.prems st rn have eq: "s' = s2" by auto
  note a = step_absent [OF Cons.prems(1,2) st]
  from Cons.IH [OF conjunct1 [OF a] conjunct2 [OF a] rn] eq show ?case by simp
qed

text \<open>
  C4. \<open>remove_account\<close> succeeds exactly when the account exists with balance 0; it fails
  with \<open>AccountNotFound\<close> for an account that does not exist and with \<open>NonZeroBalance\<close> for a
  balance other than 0, and changes nothing then. Right after a removal \<open>get_balance\<close>
  finds no account. In a ledger that started fresh, whatever calls follow the removal,
  \<open>create_account\<close> never returns the removed number and \<open>get_balance\<close> still finds no
  account under it.
\<close>

theorem remove_account_zero_balance:
  "(fst (remove_account w n s) = None \<longleftrightarrow> get_balance n s = Some 0) \<and>
   (get_balance n s = None \<longrightarrow> remove_account w n s = (Some AccountNotFound, s)) \<and>
   (get_balance n s = Some b \<and> b \<noteq> 0 \<longrightarrow> remove_account w n s = (Some NonZeroBalance, s)) \<and>
   (fst (remove_account w n s) = None \<longrightarrow> get_balance n (snd (remove_account w n s)) = None) \<and>
   (last_account s0 = 9999 \<and> accounts s0 = [] \<and> run cs s0 = (rs, s) \<and>
    fst (remove_account w n s) = None \<and> run cs' (snd (remove_account w n s)) = (rs', s')
      \<longrightarrow> n \<notin> set (issued rs') \<and> get_balance n s' = None)"
proof -
  have 1: "fst (remove_account w n s) = None \<longleftrightarrow> get_balance n s = Some 0"
    by (auto simp: remove_account_def get_balance_def split: option.splits)
  have 2: "get_balance n s = None \<longrightarrow> remove_account w n s = (Some AccountNotFound, s)"
    by (simp add: remove_account_def get_balance_def)
  have 3: "get_balance n s = Some b \<and> b \<noteq> 0 \<longrightarrow> remove_account w n s = (Some NonZeroBalance, s)"
    by (simp add: remove_account_def get_balance_def)
  have 4: "fst (remove_account w n s) = None \<longrightarrow> get_balance n (snd (remove_account w n s)) = None"
    by (auto simp: remove_account_def get_balance_def delete_conv split: option.splits if_splits)
  have 5: "last_account s0 = 9999 \<and> accounts s0 = [] \<and> run cs s0 = (rs, s) \<and>
    fst (remove_account w n s) = None \<and> run cs' (snd (remove_account w n s)) = (rs', s')
      \<longrightarrow> n \<notin> set (issued rs') \<and> get_balance n s' = None"
  proof
    let ?s1 = "snd (remove_account w n s)"
    assume a: "last_account s0 = 9999 \<and> accounts s0 = [] \<and> run cs s0 = (rs, s) \<and>
      fst (remove_account w n s) = None \<and> run cs' ?s1 = (rs', s')"
    then have "keys_issued s0" by (simp add: keys_issued_def)
    with a have "keys_issued s" using run_keys by blast
    moreover from a 1 have "map_of (accounts s) (str n) = Some 0" by (simp add: get_balance_def)
    ultimately obtain m where "str n = str m" "m \<le> last_account s"
      unfolding keys_issued_def by blast
    then have le: "n \<le> last_account s" using str_inject by blast
    have la: "last_account ?s1 = last_account s"
      by (auto simp: remove_account_def split: option.splits)
    from a have rn: "run cs' ?s1 = (rs', s')" by simp
    from run_counter [OF rn] la le have "n \<notin> set (issued rs')" by auto
    moreover from a 4 have "get_balance n ?s1 = None" by simp
    from run_absent [OF this _ rn] la le have "get_balance n s' = None" by simp
    ultimately show "n \<notin> set (issued rs') \<and> get_balance n s' = None" by simp
  qed
  from 1 2 3 4 5 show ?thesis by blast
qed

theorem remove_account_zero_balance_witness:
  "get_balance 10001 one_account = None \<and>
   remove_account Written 10001 one_account = (Some AccountNotFound, one_account) \<and>
   get_balance 10000 full_ledger = Some 5 \<and> (5::int) \<noteq> 0 \<and>
   remove_account Written 10000 full_ledger = (Some NonZeroBalance, full_ledger) \<and>
   last_account (BankData NoFile) = 9999 \<and> accounts (BankData NoFile) = [] \<and>
   run [(Written, CreateAccount)] (BankData NoFile) = ([Created (Inr 10000)], one_account) \<and>
   fst (remove_account Written 10000 one_account) = None \<and>
   get_balance 10000 (snd (remove_account Written 10000 one_account)) = None \<and>
   fst (run create_then_ask (snd (remove_account Written 10000 one_account))) =
     [Created (Inr 10001), Balance None] \<and>
   10000 \<notin> set (issued (fst (run create_then_ask (snd (remove_account Written 10000 one_account))))) \<and>
   get_balance 10000 (snd (run create_then_ask (snd (remove_account Written 10000 one_account)))) = None"
proof -
  have f: "last_account (BankData NoFile) = 9999" "accounts (BankData NoFile) = []"
    by (simp_all add: BankData_def load_def)
  have r: "run [(Written, CreateAccount)] (BankData NoFile) = ([Created (Inr 10000)], one_account)"
    by (simp add: BankData_def load_def create_account_def save_def one_account_def eval_str)
  have g1: "get_balance 10001 one_account = None"
    by (simp add: one_account_def get_balance_def eval_str)
  have g2: "get_balance 10000 full_ledger = Some 5"
    by (simp add: full_ledger_def get_balance_def eval_str)
  have g3: "get_balance 10000 one_account = Some 0"
    by (simp add: one_account_def get_balance_def eval_str)
  have rm: "remove_account Written 10000 one_account =
      (None, \<lparr>last_account = 10000, accounts = [],
        data_file = Parsed \<lparr>st_last_account = Some 10000, st_accounts = Some []\<rparr>\<rparr>)"
    by (simp add: remove_account_def one_account_def save_def eval_str)
  have r2: "fst (run create_then_ask (snd (remove_account Written 10000 one_account))) =
     [Created (Inr 10001), Balance None]"
    by (simp add: rm create_then_ask_def create_account_def get_balance_def save_def eval_str)
  have c: "run create_then_ask (snd (remove_account Written 10000 one_account)) =
     (fst (run create_then_ask (snd (remove_account Written 10000 one_account))),
      snd (run create_then_ask (snd (remove_account Written 10000 one_account))))"
    by simp
  from remove_account_zero_balance [of Written 10001 one_account 5 "BankData NoFile" "[]" "[]"
      "[]" "[]" "BankData NoFile"]
    remove_account_zero_balance [of Written 10000 full_ledger 5 "BankData NoFile" "[]" "[]"
      "[]" "[]" "BankData NoFile"]
    remove_account_zero_balance [of Written 10000 one_account 0 "BankData NoFile"
      "[(Written, CreateAccount)]" "[Created (Inr 10000)]" create_then_ask
      "fst (run create_then_ask (snd (remove_account Written 10000 one_account)))"
      "snd (run create_then_ask (snd (remove_account Written 10000 one_account)))"]
    f r g1 g2 g3 r2 c
  show ?thesis by simp
qed



section \<open>The dispatcher\<close>

lemma decimal_zeros_above: "\<forall>z \<in> set decimal_zeros. 128 \<le> z"
  by (simp add: decimal_zeros_def)

lemma digit_of_ascii:
  "c < 128 \<Longrightarrow> digit_of c = (if 48 \<le> c \<and> c \<le> 57 then Some (c - 48) else None)"
proof -
  assume "c < 128"
  then have "find (\<lambda>z. z \<le> c \<and> c < z + 10) decimal_zeros = None"
    using decimal_zeros_above by (auto simp: find_None_iff)
  then show ?thesis by (simp add: digit_of_def)
qed

lemmas eval_text = ascii_def split_ws_def is_space_def upper_def upper_char_def py_int_def
  py_number_def over_limit_def int_strip_def is_int_space_def digit_of_ascii is_digit_def
  node_ip_def default_max_digits_def

lemmas eval_dispatch = process_command_def dispatch_def branch_BC_def branch_AC_def
  branch_AD_def branch_AW_def branch_AB_def branch_AR_def branch_BA_def branch_BN_def
  with_int_def format_int_def parse_account_spec_def parse_amount_def is_valid_ip_def
  ip_pattern_def bank_data_object_def returning_def Let_def

lemmas eval_ledger = create_account_def deposit_def withdraw_def remove_account_def
  get_balance_def total_amount_def number_of_clients_def save_def

lemma er_messages [simp]:
  "take 3 msg_empty = ascii ''ER ''" "take 3 (msg_wrong_format v) = ascii ''ER ''"
  "take 3 msg_bank_mismatch = ascii ''ER ''" "take 3 msg_amount_format = ascii ''ER ''"
  "take 3 msg_unknown = ascii ''ER ''" "take 3 msg_application_error = ascii ''ER ''"
  "take 3 (ascii ''ER '' @ m) = ascii ''ER ''"
  unfolding msg_empty_def msg_wrong_format_def msg_bank_mismatch_def
      msg_amount_format_def msg_unknown_def msg_application_error_def ascii_def
  by simp_all

lemma er_response_simps [simp]:
  "er_response Raised" "er_response (Returned (ascii ''ER '' @ m))"
  "er_response (Returned (msg_wrong_format v))" "er_response (Returned msg_bank_mismatch)"
  "er_response (Returned msg_amount_format)" "er_response (Returned msg_unknown)"
  by (simp_all add: er_response_def del: take_append)

lemma branch_AD_rejected:
  assumes "length tokens \<noteq> 3 \<or> (\<forall>n. parse_account_spec m (tokens ! 1) \<noteq> Returned (Inr (n, bank_ip)))"
  shows "snd (branch_AD m bd bank_ip tokens s) = s \<and> er_response (fst (branch_AD m bd bank_ip tokens s)) \<and>
         branch_AD m bd' bank_ip tokens s = branch_AD m bd bank_ip tokens s"
  using assms
  by (auto simp: branch_AD_def Let_def split: outcome.splits sum.splits prod.splits)

lemma branch_AW_rejected:
  assumes "length tokens \<noteq> 3 \<or> (\<forall>n. parse_account_spec m (tokens ! 1) \<noteq> Returned (Inr (n, bank_ip)))"
  shows "snd (branch_AW m bd bank_ip tokens s) = s \<and> er_response (fst (branch_AW m bd bank_ip tokens s)) \<and>
         branch_AW m bd' bank_ip tokens s = branch_AW m bd bank_ip tokens s"
  using assms
  by (auto simp: branch_AW_def Let_def split: outcome.splits sum.splits prod.splits)

lemma branch_AB_rejected:
  assumes "length tokens \<noteq> 2 \<or> (\<forall>n. parse_account_spec m (tokens ! 1) \<noteq> Returned (Inr (n, bank_ip)))"
  shows "snd (branch_AB m bd bank_ip tokens s) = s \<and> er_response (fst (branch_AB m bd bank_ip tokens s)) \<and>
         branch_AB m bd' bank_ip tokens s = branch_AB m bd bank_ip tokens s"
  using assms
  by (auto simp: branch_AB_def Let_def split: outcome.splits sum.splits prod.splits)

lemma branch_AR_rejected:
  assumes "length tokens \<noteq> 2 \<or> (\<forall>n. parse_account_spec m (tokens ! 1) \<noteq> Returned (Inr (n, bank_ip)))"
  shows "snd (branch_AR m bd bank_ip tokens s) = s \<and> er_response (fst (branch_AR m bd bank_ip tokens s)) \<and>
         branch_AR m bd' bank_ip tokens s = branch_AR m bd bank_ip tokens s"
  using assms
  by (auto simp: branch_AR_def Let_def split: outcome.splits sum.splits prod.splits)

lemma branch_one_token_rejected:
  assumes "length tokens \<noteq> 1"
  shows "branch_BC bank_ip tokens s = (Returned (msg_wrong_format ''BC''), s)"
    "branch_AC m bd bank_ip tokens s = (Returned (msg_wrong_format ''AC''), s)"
    "branch_BA m bd tokens s = (Returned (msg_wrong_format ''BA''), s)"
    "branch_BN m bd tokens s = (Returned (msg_wrong_format ''BN''), s)"
  using assms by (simp_all add: branch_BC_def branch_AC_def branch_BA_def branch_BN_def)

lemma verbs_differ [simp]:
  "ascii ''AC'' \<noteq> ascii ''BC''" "ascii ''AD'' \<noteq> ascii ''BC''" "ascii ''AW'' \<noteq> ascii ''BC''"
  "ascii ''AB'' \<noteq> ascii ''BC''" "ascii ''AR'' \<noteq> ascii ''BC''" "ascii ''BA'' \<noteq> ascii ''BC''"
  "ascii ''BN'' \<noteq> ascii ''BC''" "ascii ''AD'' \<noteq> ascii ''AC''" "ascii ''AW'' \<noteq> ascii ''AC''"
  "ascii ''AB'' \<noteq> ascii ''AC''" "ascii ''AR'' \<noteq> ascii ''AC''" "ascii ''BA'' \<noteq> ascii ''AC''"
  "ascii ''BN'' \<noteq> ascii ''AC''" "ascii ''AW'' \<noteq> ascii ''AD''" "ascii ''AB'' \<noteq> ascii ''AD''"
  "ascii ''AR'' \<noteq> ascii ''AD''" "ascii ''BA'' \<noteq> ascii ''AD''" "ascii ''BN'' \<noteq> ascii ''AD''"
  "ascii ''AB'' \<noteq> ascii ''AW''" "ascii ''AR'' \<noteq> ascii ''AW''" "ascii ''BA'' \<noteq> ascii ''AW''"
  "ascii ''BN'' \<noteq> ascii ''AW''" "ascii ''AR'' \<noteq> ascii ''AB''" "ascii ''BA'' \<noteq> ascii ''AB''"
  "ascii ''BN'' \<noteq> ascii ''AB''" "ascii ''BA'' \<noteq> ascii ''AR''" "ascii ''BN'' \<noteq> ascii ''AR''"
  "ascii ''BN'' \<noteq> ascii ''BA''"
  by (simp_all add: ascii_def)

lemma process_command_dispatch:
  assumes "split_ws command_line = verb # args"
  shows "process_command m bd bank_ip command_line s =
     (case dispatch m bd bank_ip (upper verb) (verb # args) s of
        (Returned response, s') \<Rightarrow> (response, s')
      | (Raised, s') \<Rightarrow> (msg_application_error, s'))"
  using assms by (simp add: process_command_def)

lemma process_command_er:
  assumes "split_ws command_line = verb # args"
    and "snd (dispatch m bd bank_ip (upper verb) (verb # args) s) = s"
    and "er_response (fst (dispatch m bd bank_ip (upper verb) (verb # args) s))"
  shows "take 3 (fst (process_command m bd bank_ip command_line s)) = ascii ''ER '' \<and>
         snd (process_command m bd bank_ip command_line s) = s"
  using assms(2,3) unfolding process_command_dispatch [OF assms(1)]
  by (cases "dispatch m bd bank_ip (upper verb) (verb # args) s")
    (auto simp: er_response_def split: outcome.splits)

lemma parse_account_spec_accepts:
  "(\<exists>n. parse_account_spec m spec = Returned (Inr (n, ip))) \<longleftrightarrow>
   (length (split_on 0x2F spec) = 2 \<and> split_on 0x2F spec ! 1 = ip \<and>
    (\<exists>n. py_int m (split_on 0x2F spec ! 0) = Some n \<and> 10000 \<le> n \<and> n \<le> 99999) \<and>
    is_valid_ip m ip = Returned True)"
  by (auto simp: parse_account_spec_def Let_def split: option.splits outcome.splits bool.splits)

text \<open>
  C6. A line whose verb comes with the wrong number of tokens, or whose account
  specification does not come out of \<open>parse_account_spec\<close> as an account of this node (it
  does not parse, or its address is not \<open>bank_ip\<close>), is answered with a response that
  begins with \<open>ER \<close>, and the state of the ledger is the one from before. The answer is
  the same whatever object stands for the ledger, also one whose methods raise or change
  the state in every call: no method of the ledger runs. An account specification comes
  out as an account of the node exactly when it has two parts around one \<open>/\<close>, \<open>int()\<close>
  reads the first as a number from 10000 to 99999, and the second is a valid address and
  is \<open>bank_ip\<close>. Tokens, numbers and addresses are those of Python: the line is split at
  any Unicode white space, and digits of any script count.
\<close>

theorem rejected_commands_leave_ledger_alone:
  assumes "split_ws command_line = verb # args"
    and "(upper verb \<in> {ascii ''BC'', ascii ''AC'', ascii ''BA'', ascii ''BN''} \<and> length args \<noteq> 0) \<or>
         (upper verb \<in> {ascii ''AD'', ascii ''AW''} \<and> length args \<noteq> 2) \<or>
         (upper verb \<in> {ascii ''AB'', ascii ''AR''} \<and> length args \<noteq> 1) \<or>
         (upper verb \<in> {ascii ''AD'', ascii ''AW'', ascii ''AB'', ascii ''AR''} \<and> args \<noteq> [] \<and>
            (\<forall>n. parse_account_spec m (hd args) \<noteq> Returned (Inr (n, bank_ip))))"
  shows "take 3 (fst (process_command m bd bank_ip command_line s)) = ascii ''ER '' \<and>
         snd (process_command m bd bank_ip command_line s) = s \<and>
         process_command m bd' bank_ip command_line s = process_command m bd bank_ip command_line s \<and>
         ((\<exists>n. parse_account_spec m spec = Returned (Inr (n, bank_ip))) \<longleftrightarrow>
            length (split_on 0x2F spec) = 2 \<and> split_on 0x2F spec ! 1 = bank_ip \<and>
            (\<exists>n. py_int m (split_on 0x2F spec ! 0) = Some n \<and> 10000 \<le> n \<and> n \<le> 99999) \<and>
            is_valid_ip m bank_ip = Returned True)"
proof -
  let ?tokens = "verb # args"
  have d: "snd (dispatch m bd bank_ip (upper verb) ?tokens s) = s \<and>
        er_response (fst (dispatch m bd bank_ip (upper verb) ?tokens s)) \<and>
        dispatch m bd' bank_ip (upper verb) ?tokens s = dispatch m bd bank_ip (upper verb) ?tokens s"
    using assms(2)
  proof (elim disjE conjE)
    assume "upper verb \<in> {ascii ''BC'', ascii ''AC'', ascii ''BA'', ascii ''BN''}" "length args \<noteq> 0"
    then show ?thesis
      by (auto simp: dispatch_def branch_one_token_rejected)
  next
    assume v: "upper verb \<in> {ascii ''AD'', ascii ''AW''}" and "length args \<noteq> 2"
    then have "length ?tokens \<noteq> 3" by simp
    with v branch_AD_rejected [of ?tokens m bank_ip bd s bd'] branch_AW_rejected [of ?tokens m bank_ip bd s bd']
    show ?thesis by (auto simp: dispatch_def)
  next
    assume v: "upper verb \<in> {ascii ''AB'', ascii ''AR''}" and "length args \<noteq> 1"
    then have "length ?tokens \<noteq> 2" by simp
    with v branch_AB_rejected [of ?tokens m bank_ip bd s bd'] branch_AR_rejected [of ?tokens m bank_ip bd s bd']
    show ?thesis by (auto simp: dispatch_def)
  next
    assume v: "upper verb \<in> {ascii ''AD'', ascii ''AW'', ascii ''AB'', ascii ''AR''}" and "args \<noteq> []"
      and "\<forall>n. parse_account_spec m (hd args) \<noteq> Returned (Inr (n, bank_ip))"
    then have p: "\<forall>n. parse_account_spec m (?tokens ! 1) \<noteq> Returned (Inr (n, bank_ip))"
      by (cases args) auto
    with v branch_AD_rejected [of ?tokens m bank_ip bd s bd'] branch_AW_rejected [of ?tokens m bank_ip bd s bd']
      branch_AB_rejected [of ?tokens m bank_ip bd s bd'] branch_AR_rejected [of ?tokens m bank_ip bd s bd']
    show ?thesis by (auto simp: dispatch_def)
  qed
  from process_command_er [OF assms(1), of m bd bank_ip s] d
  have "take 3 (fst (process_command m bd bank_ip command_line s)) = ascii ''ER '' \<and>
         snd (process_command m bd bank_ip command_line s) = s" by simp
  moreover from d have "process_command m bd' bank_ip command_line s = process_command m bd bank_ip command_line s"
    by (simp add: process_command_dispatch [OF assms(1)])
  ultimately show ?thesis using parse_account_spec_accepts [of m spec bank_ip] by simp
qed

theorem rejected_commands_leave_ledger_alone_witness:
  "split_ws (ascii ''bc'' @ 0xA0 # ascii ''now'') = [ascii ''bc'', ascii ''now''] \<and>
   upper (ascii ''bc'') = ascii ''BC'' \<and>
   process_command default_max_digits (bank_data_object Written) node_ip
       (ascii ''bc'' @ 0xA0 # ascii ''now'') one_account =
     (msg_wrong_format ''BC'', one_account) \<and>
   split_ws (ascii ''AD 10000/10.0.0.5'') = [ascii ''AD'', ascii ''10000/10.0.0.5''] \<and>
   process_command default_max_digits (bank_data_object Written) node_ip
       (ascii ''AD 10000/10.0.0.5'') one_account =
     (msg_wrong_format ''AD'', one_account) \<and>
   split_ws (ascii ''AB'') = [ascii ''AB''] \<and>
   process_command default_max_digits (bank_data_object Written) node_ip (ascii ''AB'') one_account =
     (msg_wrong_format ''AB'', one_account) \<and>
   split_ws (ascii ''AW 9999/10.0.0.5 5'') = [ascii ''AW'', ascii ''9999/10.0.0.5'', ascii ''5''] \<and>
   parse_account_spec default_max_digits (ascii ''9999/10.0.0.5'') = Returned (Inl msg_account_format) \<and>
   process_command default_max_digits (bank_data_object Written) node_ip
       (ascii ''AW 9999/10.0.0.5 5'') one_account =
     (ascii ''ER '' @ msg_account_format, one_account) \<and>
   split_ws (ascii ''AR 10000/10.0.0.256'') = [ascii ''AR'', ascii ''10000/10.0.0.256''] \<and>
   parse_account_spec default_max_digits (ascii ''10000/10.0.0.256'') = Returned (Inl msg_ip_format) \<and>
   process_command default_max_digits (bank_data_object Written) node_ip
       (ascii ''AR 10000/10.0.0.256'') one_account =
     (ascii ''ER '' @ msg_ip_format, one_account) \<and>
   split_ws (ascii ''AR 10000/10.0.0.6'') = [ascii ''AR'', ascii ''10000/10.0.0.6''] \<and>
   parse_account_spec default_max_digits (ascii ''10000/10.0.0.6'') =
     Returned (Inr (10000, ascii ''10.0.0.6'')) \<and>
   process_command default_max_digits (bank_data_object Written) node_ip
       (ascii ''AR 10000/10.0.0.6'') one_account =
     (msg_bank_mismatch, one_account) \<and>
   process_command default_max_digits refusing_ledger node_ip
       (ascii ''AR 10000/10.0.0.6'') one_account =
     (msg_bank_mismatch, one_account)"
proof -
  have t: "split_ws (ascii ''bc'' @ 0xA0 # ascii ''now'') = ascii ''bc'' # [ascii ''now'']"
    "split_ws (ascii ''AD 10000/10.0.0.5'') = ascii ''AD'' # [ascii ''10000/10.0.0.5'']"
    "split_ws (ascii ''AB'') = ascii ''AB'' # []"
    "split_ws (ascii ''AW 9999/10.0.0.5 5'') = ascii ''AW'' # [ascii ''9999/10.0.0.5'', ascii ''5'']"
    "split_ws (ascii ''AR 10000/10.0.0.256'') = ascii ''AR'' # [ascii ''10000/10.0.0.256'']"
    "split_ws (ascii ''AR 10000/10.0.0.6'') = ascii ''AR'' # [ascii ''10000/10.0.0.6'']"
    by (simp_all add: eval_text)
  have u: "upper (ascii ''bc'') = ascii ''BC''" "upper (ascii ''AD'') = ascii ''AD''"
    "upper (ascii ''AB'') = ascii ''AB''" "upper (ascii ''AW'') = ascii ''AW''"
    "upper (ascii ''AR'') = ascii ''AR''"
    by (simp_all add: eval_text)
  have p: "parse_account_spec default_max_digits (ascii ''9999/10.0.0.5'') = Returned (Inl msg_account_format)"
    "parse_account_spec default_max_digits (ascii ''10000/10.0.0.256'') = Returned (Inl msg_ip_format)"
    "parse_account_spec default_max_digits (ascii ''10000/10.0.0.6'') =
       Returned (Inr (10000, ascii ''10.0.0.6''))"
    by (simp_all add: eval_dispatch eval_text)
  have ne: "ascii ''10.0.0.6'' \<noteq> node_ip" by (simp add: eval_text)
  have r: "process_command default_max_digits (bank_data_object Written) node_ip
       (ascii ''bc'' @ 0xA0 # ascii ''now'') one_account = (msg_wrong_format ''BC'', one_account)"
    "process_command default_max_digits (bank_data_object Written) node_ip
       (ascii ''AD 10000/10.0.0.5'') one_account = (msg_wrong_format ''AD'', one_account)"
    "process_command default_max_digits (bank_data_object Written) node_ip (ascii ''AB'') one_account =
     (msg_wrong_format ''AB'', one_account)"
    "process_command default_max_digits (bank_data_object Written) node_ip
       (ascii ''AW 9999/10.0.0.5 5'') one_account = (ascii ''ER '' @ msg_account_format, one_account)"
    "process_command default_max_digits (bank_data_object Written) node_ip
       (ascii ''AR 10000/10.0.0.256'') one_account = (ascii ''ER '' @ msg_ip_format, one_account)"
    "process_command default_max_digits (bank_data_object Written) node_ip
       (ascii ''AR 10000/10.0.0.6'') one_account = (msg_bank_mismatch, one_account)"
    by (simp_all add: process_command_def dispatch_def branch_BC_def branch_AD_def branch_AB_def
        branch_AW_def branch_AR_def t u p ne)
  note rej = rejected_commands_leave_ledger_alone [where m = default_max_digits
      and bank_ip = node_ip and bd = "bank_data_object Written" and s = one_account
      and bd' = refusing_ledger]
  from rej [OF t(1)] rej [OF t(2)] rej [OF t(3)] rej [OF t(4)] rej [OF t(5)] rej [OF t(6)] u p r ne
  have "process_command default_max_digits refusing_ledger node_ip
       (ascii ''AR 10000/10.0.0.6'') one_account = (msg_bank_mismatch, one_account)" by simp
  with t u p r show ?thesis by simp
qed

lemma unicode_digits:
  "digit_of 0x663 = Some 3" "digit_of 0xFF10 = Some 0" "digit_of 0xFF11 = Some 1"
  by (simp_all add: digit_of_def decimal_zeros_def)

text \<open>
  Lines that Python reads through characters outside ASCII are read the same way here: a
  no-break space separates tokens, and Arabic-Indic and fullwidth digits are digits.
\<close>

lemma unicode_lines_are_read:
  "process_command default_max_digits (bank_data_object Written) node_ip
       (ascii ''AD 10000/10.0.0.5'' @ [0xA0] @ ascii ''5'') one_account =
     process_command default_max_digits (bank_data_object Written) node_ip
       (ascii ''AD 10000/10.0.0.5 5'') one_account"
  "fst (process_command default_max_digits (bank_data_object Written) node_ip
       (ascii ''AD 10000/10.0.0.5 5'') one_account) = ascii ''AD''"
  "process_command default_max_digits (bank_data_object Written) node_ip
       (ascii ''AD 10000/10.0.0.5 '' @ [0x663]) one_account =
     process_command default_max_digits (bank_data_object Written) node_ip
       (ascii ''AD 10000/10.0.0.5 3'') one_account"
  "process_command default_max_digits (bank_data_object Written) node_ip
       (ascii ''AR '' @ [0xFF11, 0xFF10, 0xFF10, 0xFF10, 0xFF10] @ ascii ''/10.0.0.5'') one_account =
     process_command default_max_digits (bank_data_object Written) node_ip
       (ascii ''AR 10000/10.0.0.5'') one_account"
  "fst (process_command default_max_digits (bank_data_object Written) node_ip
       (ascii ''AB'' @ [0xA0] @ ascii ''10000/10.0.0.5'') one_account) = ascii ''AB 0''"
  by (simp_all add: eval_dispatch eval_text eval_ledger eval_str one_account_def unicode_digits)

lemma parse_amount_None:
  "parse_amount m t = None \<longleftrightarrow> (py_int m t = None \<or> (\<exists>a. py_int m t = Some a \<and> a < 0))"
  by (auto simp: parse_amount_def split: option.splits)

lemma parse_amount_Some: "parse_amount m t = Some a \<Longrightarrow> 0 \<le> a"
  by (auto simp: parse_amount_def split: option.splits if_splits)

lemma dispatch_same_but_negative:
  assumes "same_but_negative bd bd'"
  shows "dispatch m bd' bank_ip cmd tokens s = dispatch m bd bank_ip cmd tokens s"
proof -
  have ad: "branch_AD m bd' bank_ip tokens s = branch_AD m bd bank_ip tokens s"
    using assms
    by (auto simp: branch_AD_def same_but_negative_def Let_def dest: parse_amount_Some
        split: outcome.splits sum.splits prod.splits option.splits)
  have aw: "branch_AW m bd' bank_ip tokens s = branch_AW m bd bank_ip tokens s"
    using assms
    by (auto simp: branch_AW_def same_but_negative_def Let_def dest: parse_amount_Some
        split: outcome.splits sum.splits prod.splits option.splits)
  have rest: "branch_AC m bd' bank_ip tokens s = branch_AC m bd bank_ip tokens s"
    "branch_AB m bd' bank_ip tokens s = branch_AB m bd bank_ip tokens s"
    "branch_AR m bd' bank_ip tokens s = branch_AR m bd bank_ip tokens s"
    "branch_BA m bd' tokens s = branch_BA m bd tokens s"
    "branch_BN m bd' tokens s = branch_BN m bd tokens s"
  proof -
    from assms have eqs: "l_create_account bd' = l_create_account bd"
      "l_get_balance bd' = l_get_balance bd" "l_remove_account bd' = l_remove_account bd"
      "l_total_amount bd' = l_total_amount bd" "l_number_of_clients bd' = l_number_of_clients bd"
      by (simp_all add: same_but_negative_def)
    show "branch_AC m bd' bank_ip tokens s = branch_AC m bd bank_ip tokens s"
      "branch_AB m bd' bank_ip tokens s = branch_AB m bd bank_ip tokens s"
      "branch_AR m bd' bank_ip tokens s = branch_AR m bd bank_ip tokens s"
      "branch_BA m bd' tokens s = branch_BA m bd tokens s"
      "branch_BN m bd' tokens s = branch_BN m bd tokens s"
      unfolding branch_AC_def branch_AB_def branch_AR_def branch_BA_def branch_BN_def eqs
      by (rule refl)+
  qed
  from ad aw rest show ?thesis by (simp add: dispatch_def)
qed

lemma branch_bad_amount:
  assumes "length tokens = 3" and "parse_amount m (tokens ! 2) = None"
  shows "snd (branch_AD m bd bank_ip tokens s) = s \<and> er_response (fst (branch_AD m bd bank_ip tokens s)) \<and>
         branch_AD m bd' bank_ip tokens s = branch_AD m bd bank_ip tokens s \<and>
         ((\<exists>n. parse_account_spec m (tokens ! 1) = Returned (Inr (n, bank_ip))) \<longrightarrow>
            fst (branch_AD m bd bank_ip tokens s) = Returned msg_amount_format)"
    and "snd (branch_AW m bd bank_ip tokens s) = s \<and> er_response (fst (branch_AW m bd bank_ip tokens s)) \<and>
         branch_AW m bd' bank_ip tokens s = branch_AW m bd bank_ip tokens s \<and>
         ((\<exists>n. parse_account_spec m (tokens ! 1) = Returned (Inr (n, bank_ip))) \<longrightarrow>
            fst (branch_AW m bd bank_ip tokens s) = Returned msg_amount_format)"
  using assms
  by (auto simp: branch_AD_def branch_AW_def Let_def split: outcome.splits sum.splits prod.splits)

text \<open>
  C7, amended. On a line of three tokens with the verb AD or AW whose amount token
  \<open>int()\<close> does not read, or reads as a negative number, the response begins with \<open>ER \<close>,
  the ledger's state stays and no method of the ledger runs; the response is the
  amount-format message when the account specification parses and names this node
  (the account specification is checked first, and its own error is reported otherwise).
  On every line, \<open>deposit\<close> and \<open>withdraw\<close> are called with amounts that are not negative
  only: a ledger that differs on negative amounts alone gives the same results.
\<close>

theorem bad_amount_rejected:
  "(split_ws command_line = [verb, account_spec, amount_str] \<and>
    (upper verb = ascii ''AD'' \<or> upper verb = ascii ''AW'') \<and>
    (py_int m amount_str = None \<or> (\<exists>a. py_int m amount_str = Some a \<and> a < 0))
    \<longrightarrow> take 3 (fst (process_command m bd bank_ip command_line s)) = ascii ''ER '' \<and>
        snd (process_command m bd bank_ip command_line s) = s \<and>
        process_command m bd' bank_ip command_line s = process_command m bd bank_ip command_line s \<and>
        ((\<exists>n. parse_account_spec m account_spec = Returned (Inr (n, bank_ip))) \<longrightarrow>
           fst (process_command m bd bank_ip command_line s) = msg_amount_format)) \<and>
   (same_but_negative bd bd' \<longrightarrow>
      process_command m bd' bank_ip command_line s = process_command m bd bank_ip command_line s)"
proof (intro conjI impI)
  assume a: "split_ws command_line = [verb, account_spec, amount_str] \<and>
    (upper verb = ascii ''AD'' \<or> upper verb = ascii ''AW'') \<and>
    (py_int m amount_str = None \<or> (\<exists>a. py_int m amount_str = Some a \<and> a < 0))"
  let ?tokens = "[verb, account_spec, amount_str]"
  from a have t: "split_ws command_line = verb # [account_spec, amount_str]" by simp
  from a have pa: "parse_amount m (?tokens ! 2) = None" by (simp add: parse_amount_None)
  have len: "length ?tokens = 3" by simp
  note b = branch_bad_amount [OF len pa, of bd bank_ip s bd']
  from a b have d: "snd (dispatch m bd bank_ip (upper verb) ?tokens s) = s \<and>
      er_response (fst (dispatch m bd bank_ip (upper verb) ?tokens s)) \<and>
      dispatch m bd' bank_ip (upper verb) ?tokens s = dispatch m bd bank_ip (upper verb) ?tokens s \<and>
      ((\<exists>n. parse_account_spec m account_spec = Returned (Inr (n, bank_ip))) \<longrightarrow>
          fst (dispatch m bd bank_ip (upper verb) ?tokens s) = Returned msg_amount_format)"
    by (auto simp: dispatch_def)
  from process_command_er [OF t, of m bd bank_ip s] d
  show "take 3 (fst (process_command m bd bank_ip command_line s)) = ascii ''ER ''"
    and "snd (process_command m bd bank_ip command_line s) = s" by simp_all
  from d show "process_command m bd' bank_ip command_line s = process_command m bd bank_ip command_line s"
    by (simp add: process_command_dispatch [OF t])
  assume "\<exists>n. parse_account_spec m account_spec = Returned (Inr (n, bank_ip))"
  with d have "fst (dispatch m bd bank_ip (upper verb) ?tokens s) = Returned msg_amount_format" by simp
  then show "fst (process_command m bd bank_ip command_line s) = msg_amount_format"
    unfolding process_command_dispatch [OF t]
    by (cases "dispatch m bd bank_ip (upper verb) [verb, account_spec, amount_str] s") simp
next
  assume "same_but_negative bd bd'"
  then show "process_command m bd' bank_ip command_line s = process_command m bd bank_ip command_line s"
    by (simp add: process_command_def dispatch_same_but_negative Let_def)
qed

lemma py_number_over_limit:
  "0 < m \<Longrightarrow> 640 \<le> m \<Longrightarrow> m < length (filter is_digit s) \<Longrightarrow> py_number m s = None"
  by (simp add: py_number_def over_limit_def)

theorem bad_amount_rejected_witness:
  "split_ws (ascii ''AD 10000/10.0.0.5 -5'') = [ascii ''AD'', ascii ''10000/10.0.0.5'', ascii ''-5''] \<and>
   upper (ascii ''AD'') = ascii ''AD'' \<and> py_int default_max_digits (ascii ''-5'') = Some (- 5) \<and>
   parse_account_spec default_max_digits (ascii ''10000/10.0.0.5'') = Returned (Inr (10000, node_ip)) \<and>
   process_command default_max_digits (bank_data_object Written) node_ip
       (ascii ''AD 10000/10.0.0.5 -5'') one_account = (msg_amount_format, one_account) \<and>
   process_command default_max_digits refusing_ledger node_ip
       (ascii ''AD 10000/10.0.0.5 -5'') one_account = (msg_amount_format, one_account) \<and>
   split_ws (ascii ''aw 10000/10.0.0.5 1__0'') =
     [ascii ''aw'', ascii ''10000/10.0.0.5'', ascii ''1__0''] \<and>
   upper (ascii ''aw'') = ascii ''AW'' \<and> py_int default_max_digits (ascii ''1__0'') = None \<and>
   process_command default_max_digits (bank_data_object Written) node_ip
       (ascii ''aw 10000/10.0.0.5 1__0'') one_account = (msg_amount_format, one_account) \<and>
   process_command default_max_digits checking_ledger node_ip
       (ascii ''AD 10000/10.0.0.5 5'') one_account =
     process_command default_max_digits (bank_data_object Written) node_ip
       (ascii ''AD 10000/10.0.0.5 5'') one_account"
proof -
  have t: "split_ws (ascii ''AD 10000/10.0.0.5 -5'') = [ascii ''AD'', ascii ''10000/10.0.0.5'', ascii ''-5'']"
    "split_ws (ascii ''aw 10000/10.0.0.5 1__0'') =
       [ascii ''aw'', ascii ''10000/10.0.0.5'', ascii ''1__0'']"
    by (simp_all add: eval_text)
  have u: "upper (ascii ''AD'') = ascii ''AD''" "upper (ascii ''aw'') = ascii ''AW''"
    by (simp_all add: eval_text)
  have a: "py_int default_max_digits (ascii ''-5'') = Some (- 5)"
    "py_int default_max_digits (ascii ''1__0'') = None"
    by (simp_all add: eval_text)
  have p: "parse_account_spec default_max_digits (ascii ''10000/10.0.0.5'') = Returned (Inr (10000, node_ip))"
    by (simp add: eval_dispatch eval_text)
  have sbn: "same_but_negative (bank_data_object Written) checking_ledger"
    by (simp add: same_but_negative_def checking_ledger_def bank_data_object_def)
  from bad_amount_rejected [of "ascii ''AD 10000/10.0.0.5 -5''" "ascii ''AD''"
      "ascii ''10000/10.0.0.5''" "ascii ''-5''" default_max_digits
      "bank_data_object Written" node_ip one_account refusing_ledger]
    bad_amount_rejected [of "ascii ''aw 10000/10.0.0.5 1__0''" "ascii ''aw''"
      "ascii ''10000/10.0.0.5''" "ascii ''1__0''" default_max_digits
      "bank_data_object Written" node_ip one_account refusing_ledger]
    bad_amount_rejected [of "ascii ''AD 10000/10.0.0.5 5''" "ascii ''AD''"
      "ascii ''10000/10.0.0.5''" "ascii ''5''" default_max_digits
      "bank_data_object Written" node_ip one_account checking_ledger]
    t u a p sbn
  show ?thesis by (auto simp: prod_eq_iff)
qed

text \<open>
  C7 as stated fails: an AD line with a negative amount and an account specification
  that does not parse is answered with the account-format message, not with the
  amount-format message.
\<close>

theorem bad_amount_counterexample:
  "split_ws (ascii ''AD x -5'') = [ascii ''AD'', ascii ''x'', ascii ''-5''] \<and>
   py_int default_max_digits (ascii ''-5'') = Some (- 5) \<and>
   fst (process_command default_max_digits (bank_data_object Written) node_ip
     (ascii ''AD x -5'') one_account) = ascii ''ER '' @ msg_account_format \<and>
   fst (process_command default_max_digits (bank_data_object Written) node_ip
     (ascii ''AD x -5'') one_account) \<noteq> msg_amount_format"
  by (simp add: eval_dispatch eval_text msg_account_format_def msg_amount_format_def czech_letters)

text \<open>
  C10. \<open>int()\<close> reads \<open>1_0\<close> as 10, \<open>10_000\<close> as 10000 and \<open>+10000\<close> as 10000, and the
  dispatcher takes such tokens for the account number and the amount: the deposits below
  are carried out and the balance is reported, with no format error.
\<close>

theorem lenient_numbers:
  "py_int default_max_digits (ascii ''1_0'') = Some 10 \<and>
   py_int default_max_digits (ascii ''10_000'') = Some 10000 \<and>
   py_int default_max_digits (ascii ''+10000'') = Some 10000 \<and>
   process_command default_max_digits (bank_data_object Written) node_ip
       (ascii ''AD 10_000/10.0.0.5 1_0'') one_account =
     (ascii ''AD'', \<lparr>last_account = 10000, accounts = [(''10000'', 10)],
        data_file = Parsed \<lparr>st_last_account = Some 10000, st_accounts = Some [(''10000'', 10)]\<rparr>\<rparr>) \<and>
   process_command default_max_digits (bank_data_object Written) node_ip
       (ascii ''AD +10000/10.0.0.5 +5'') one_account =
     (ascii ''AD'', \<lparr>last_account = 10000, accounts = [(''10000'', 5)],
        data_file = Parsed \<lparr>st_last_account = Some 10000, st_accounts = Some [(''10000'', 5)]\<rparr>\<rparr>) \<and>
   fst (process_command default_max_digits (bank_data_object Written) node_ip
       (ascii ''AB +10_000/10.0.0.5'') one_account) = ascii ''AB 0''"
  by (simp add: eval_dispatch eval_text eval_ledger eval_str one_account_def)



lemma fixed_no_newline:
  "0x0A \<notin> set msg_empty" "0x0A \<notin> set msg_bank_mismatch"
  "0x0A \<notin> set msg_amount_format" "0x0A \<notin> set msg_unknown"
  "0x0A \<notin> set msg_application_error" "0x0A \<notin> set msg_account_format"
  "0x0A \<notin> set msg_ip_format"
  "0x0A \<notin> set (ascii v) \<Longrightarrow> 0x0A \<notin> set (msg_wrong_format v)"
  by (simp_all add: msg_empty_def msg_bank_mismatch_def msg_amount_format_def msg_unknown_def
      msg_application_error_def msg_account_format_def msg_ip_format_def msg_wrong_format_def
      czech_letters ascii_def)


lemma verbs_member [simp]:
  "ascii ''BC'' \<in> set verbs" "ascii ''AC'' \<in> set verbs" "ascii ''AD'' \<in> set verbs"
  "ascii ''AW'' \<in> set verbs" "ascii ''AB'' \<in> set verbs" "ascii ''AR'' \<in> set verbs"
  "ascii ''BA'' \<in> set verbs" "ascii ''BN'' \<in> set verbs"
  by (simp_all add: verbs_def)

lemma er_or_verb_simps [simp]:
  "er_or_verb v Raised" "er_or_verb v (Returned (ascii ''ER '' @ x))"
  "er_or_verb v (Returned (msg_wrong_format v'))" "er_or_verb v (Returned msg_bank_mismatch)"
  "er_or_verb v (Returned msg_amount_format)" "er_or_verb v (Returned msg_unknown)"
  "er_or_verb (ascii ''BC'') (Returned (ascii ''BC '' @ x))"
  "er_or_verb (ascii ''AD'') (Returned (ascii ''AD''))"
  "er_or_verb (ascii ''AW'') (Returned (ascii ''AW''))"
  "er_or_verb (ascii ''AR'') (Returned (ascii ''AR''))"
  by (simp_all add: er_or_verb_def del: take_append) (simp_all add: ascii_def)


lemma no_newline_simps [simp]:
  "no_newline Raised" "0x0A \<notin> set x \<Longrightarrow> no_newline (Returned (ascii ''ER '' @ x))"
  "no_newline (Returned (msg_wrong_format ''BC''))" "no_newline (Returned (msg_wrong_format ''AC''))"
  "no_newline (Returned (msg_wrong_format ''AD''))" "no_newline (Returned (msg_wrong_format ''AW''))"
  "no_newline (Returned (msg_wrong_format ''AB''))" "no_newline (Returned (msg_wrong_format ''AR''))"
  "no_newline (Returned (msg_wrong_format ''BA''))" "no_newline (Returned (msg_wrong_format ''BN''))"
  "no_newline (Returned msg_bank_mismatch)"
  "no_newline (Returned msg_amount_format)" "no_newline (Returned msg_unknown)"
  "0x0A \<notin> set x \<Longrightarrow> no_newline (Returned (ascii ''BC '' @ x))"
  "no_newline (Returned (ascii ''AD''))" "no_newline (Returned (ascii ''AW''))"
  "no_newline (Returned (ascii ''AR''))"
  by (simp_all add: no_newline_def fixed_no_newline ascii_def)


lemma ascii_no_newline [simp]:
  "0x0A \<notin> set (ascii ''AC '')" "0x0A \<notin> set (ascii ''AB '')" "0x0A \<notin> set (ascii ''BA '')"
  "0x0A \<notin> set (ascii ''BN '')" "0x0A \<notin> set (ascii ''/'')"
  by (simp_all add: ascii_def)

lemma take2_ascii [simp]:
  "take 2 (ascii ''AC '') = ascii ''AC''" "take 2 (ascii ''AB '') = ascii ''AB''"
  "take 2 (ascii ''BA '') = ascii ''BA''" "take 2 (ascii ''BN '') = ascii ''BN''"
  by (simp_all add: ascii_def)














end
